theory Spec2Isabelle
  imports Complex_Main
begin

section \<open>Strings, query parameters and the date pattern\<close>

text \<open>
  A JavaScript string is modelled by the list of the bytes of its UTF-8 encoding
  (\<open>string\<close> is \<open>char list\<close>, a \<open>char\<close> is a byte). Everything the handler does with a
  string is decided on ASCII characters: the emptiness test \<open>!to\<close>, the digit classes and
  literals of the date pattern, the comparison with the boundary day (an ASCII string), and
  the form-urlencoded serializer, which works on the UTF-8 bytes anyway.

  \<open>searchParams\<close> is the decoded query string: the list of name/value pairs in the order of
  the URL. \<open>searchParams.get(name)\<close> returns the value of the first pair with that
  name, or \<open>null\<close> (here \<open>None\<close>).
\<close>

type_synonym searchParams = "(string \<times> string) list"

fun searchParams_get :: "searchParams \<Rightarrow> string \<Rightarrow> string option" where
  "searchParams_get [] name = None"
| "searchParams_get ((k, v) # ps) name = (if k = name then Some v else searchParams_get ps name)"

text \<open>
  Truthiness of a value that is a string or \<open>null\<close>: \<open>null\<close> and the empty string
  are falsy, every other string is truthy.
\<close>

fun truthy :: "string option \<Rightarrow> bool" where
  "truthy None = False"
| "truthy (Some s) = (s \<noteq> [])"

text \<open>
  The relational operators on two strings compare code units lexicographically, a proper
  prefix being smaller; \<open>a >= b\<close> is the negation of \<open>a < b\<close>.
\<close>

fun js_string_less :: "string \<Rightarrow> string \<Rightarrow> bool" where
  "js_string_less [] [] = False"
| "js_string_less [] (y # ys) = True"
| "js_string_less (x # xs) [] = False"
| "js_string_less (x # xs) (y # ys) =
     (if x = y then js_string_less xs ys else (of_char x :: nat) < of_char y)"

definition js_string_ge :: "string \<Rightarrow> string \<Rightarrow> bool" where
  "js_string_ge a b = (\<not> js_string_less a b)"

text \<open>
  The pattern \<^verbatim>\<open>/^(\d{4}-\d{2}-\d{2})(T\d{2}:\d{2}:\d{2}\.\d{3}Z)?$/\<close>.
  Both groups have a fixed length, so the match is decided by cutting the subject after
  ten characters: the first ten must spell the date group, and what follows is either
  nothing (the optional group did not take part: \<open>matchFrom[2]\<close> is \<open>undefined\<close>) or
  exactly the time group. Without the \<open>m\<close> flag \<open>$\<close> matches at the very end only.
\<close>

datatype atom = Digit | Lit char

definition is_digit :: "char \<Rightarrow> bool" where
  "is_digit c = (c \<in> set ''0123456789'')"

fun atom_matches :: "atom \<Rightarrow> char \<Rightarrow> bool" where
  "atom_matches Digit c = is_digit c"
| "atom_matches (Lit l) c = (c = l)"

fun matches_atoms :: "atom list \<Rightarrow> string \<Rightarrow> bool" where
  "matches_atoms [] [] = True"
| "matches_atoms (a # as) (c # cs) = (atom_matches a c \<and> matches_atoms as cs)"
| "matches_atoms [] (c # cs) = False"
| "matches_atoms (a # as) [] = False"

definition date_atoms :: "atom list" where
  "date_atoms = [Digit, Digit, Digit, Digit, Lit CHR ''-'', Digit, Digit, Lit CHR ''-'',
                 Digit, Digit]"

definition time_atoms :: "atom list" where
  "time_atoms = [Lit CHR ''T'', Digit, Digit, Lit CHR '':'', Digit, Digit, Lit CHR '':'',
                 Digit, Digit, Lit CHR ''.'', Digit, Digit, Digit, Lit CHR ''Z'']"

text \<open>
  \<open>match_date s\<close> is \<open>s.match(pattern)\<close>: \<open>None\<close> for \<open>null\<close>, otherwise group 1
  and group 2 (\<open>None\<close> when the optional group did not take part).
\<close>

definition match_date :: "string \<Rightarrow> (string \<times> string option) option" where
  "match_date s =
     (let g1 = take 10 s; rest = drop 10 s in
      if matches_atoms date_atoms g1 then
        (if rest = [] then Some (g1, None)
         else if matches_atoms time_atoms rest then Some (g1, Some rest)
         else None)
      else None)"

section \<open>Dates\<close>

text \<open>
  A \<open>Date\<close> is its time value, the milliseconds since 1970-01-01T00:00:00Z as an
  integer. \<open>toISOString\<close> follows the ECMAScript date-time string format
  \<open>YYYY-MM-DDTHH:mm:ss.sssZ\<close> in UTC, with the expanded year \<open>\<plusminus>YYYYYY\<close> outside
  0..9999. The civil date of a day number is computed in the proleptic Gregorian
  calendar by eras of 400 years (146097 days), counted from March 1st.
\<close>

definition digit_char :: "nat \<Rightarrow> char" where
  "digit_char n = ''0123456789'' ! (n mod 10)"

fun string_of_nat :: "nat \<Rightarrow> string" where
  "string_of_nat n =
     (if n < 10 then [digit_char n] else string_of_nat (n div 10) @ [digit_char (n mod 10)])"

declare string_of_nat.simps [simp del]

definition padStart :: "nat \<Rightarrow> string \<Rightarrow> string" where
  "padStart w s = replicate (w - length s) CHR ''0'' @ s"

definition civil_from_days :: "int \<Rightarrow> int \<times> int \<times> int" where
  "civil_from_days days =
     (let z = days + 719468;
          era = z div 146097;
          doe = z mod 146097;
          yoe = (doe - doe div 1460 + doe div 36524 - doe div 146096) div 365;
          y = yoe + era * 400;
          doy = doe - (365 * yoe + yoe div 4 - yoe div 100);
          mp = (5 * doy + 2) div 153;
          d = doy - (153 * mp + 2) div 5 + 1;
          m = (if mp < 10 then mp + 3 else mp - 9)
      in (if m \<le> 2 then y + 1 else y, m, d))"

definition year_string :: "int \<Rightarrow> string" where
  "year_string y =
     (if 0 \<le> y \<and> y \<le> 9999 then padStart 4 (string_of_nat (nat y))
      else (if y < 0 then ''-'' else ''+'') @ padStart 6 (string_of_nat (nat \<bar>y\<bar>)))"

definition toISOString :: "int \<Rightarrow> string" where
  "toISOString t =
     (let (y, m, d) = civil_from_days (t div 86400000);
          ms = t mod 86400000
      in year_string y @ ''-'' @ padStart 2 (string_of_nat (nat m)) @ ''-''
         @ padStart 2 (string_of_nat (nat d)) @ ''T''
         @ padStart 2 (string_of_nat (nat (ms div 3600000))) @ '':''
         @ padStart 2 (string_of_nat (nat (ms div 60000 mod 60))) @ '':''
         @ padStart 2 (string_of_nat (nat (ms div 1000 mod 60))) @ ''.''
         @ padStart 3 (string_of_nat (nat (ms mod 1000))) @ ''Z'')"

text \<open>\<open>getDayAsISOString d = d.toISOString().split('T')[0]\<close>: the text before the first \<open>T\<close>.\<close>

definition getDayAsISOString :: "int \<Rightarrow> string" where
  "getDayAsISOString d = takeWhile (\<lambda>c. c \<noteq> CHR ''T'') (toISOString d)"

text \<open>\<open>today()\<close> reads the clock, which is the argument \<open>now\<close> here.\<close>

definition today :: "int \<Rightarrow> string" where
  "today now = getDayAsISOString now"

section \<open>The query string of a redirect\<close>

text \<open>
  \<^verbatim>\<open>`${new URLSearchParams({ from, to })}`\<close> is the application/x-www-form-urlencoded
  serialization of the pairs \<open>from\<close>, \<open>to\<close> in the order of the object's properties:
  \<open>name=value\<close> joined by \<open>&\<close>, where a byte of a name or a value is kept when it is an
  ASCII letter, a digit or one of \<open>* - . _\<close>, a space becomes \<open>+\<close>, and every other
  byte becomes \<open>%\<close> and its two upper-case hexadecimal digits.
\<close>

definition is_unreserved :: "char \<Rightarrow> bool" where
  "is_unreserved c =
     (c \<in> set ''ABCDEFGHIJKLMNOPQRSTUVWXYZabcdefghijklmnopqrstuvwxyz0123456789*-._'')"

definition hex_digit :: "nat \<Rightarrow> char" where
  "hex_digit n = ''0123456789ABCDEF'' ! (n mod 16)"

definition encode_byte :: "char \<Rightarrow> string" where
  "encode_byte c =
     (if is_unreserved c then [c]
      else if c = CHR '' '' then ''+''
      else [CHR ''%'', hex_digit (of_char c div 16), hex_digit (of_char c mod 16)])"

definition urlencode :: "string \<Rightarrow> string" where
  "urlencode s = concat (map encode_byte s)"

fun URLSearchParams_toString :: "searchParams \<Rightarrow> string" where
  "URLSearchParams_toString [] = []"
| "URLSearchParams_toString [(k, v)] = urlencode k @ ''='' @ urlencode v"
| "URLSearchParams_toString ((k, v) # p # ps) =
     urlencode k @ ''='' @ urlencode v @ ''&'' @ URLSearchParams_toString (p # ps)"

section \<open>The response, the errors and the request pipeline\<close>

text \<open>
  The state a request works on: the \<open>ServerResponse\<close> (status code, headers, body, whether
  \<open>end\<close> was called), the log of the filters the aggregation query was invoked with, and
  the errors handed to the error tracker. A fresh response has status 200 and no header.
  \<open>json(res, stats)\<close> of http-responders ends the response with the serialized rows; the
  model keeps the rows (and leaves out the content type that the library sets).
\<close>

record stats_filter =
  filter_from :: string
  filter_to :: string

datatype 'r body = NoBody | TextBody string | JsonBody "'r list"

datatype js_error = SyntaxError | HttpError nat string | PlainError

record 'r conn =
  statusCode :: nat
  headers :: "string \<rightharpoonup> string"
  body :: "'r body"
  ended :: bool
  queries :: "stats_filter list"
  captured :: "js_error list"

definition fresh :: "'r conn" where
  "fresh = \<lparr>statusCode = 200, headers = Map.empty, body = NoBody, ended = False,
            queries = [], captured = []\<rparr>"

datatype 'a outcome = Returned 'a | Thrown js_error

definition setHeader :: "string \<Rightarrow> string \<Rightarrow> 'r conn \<Rightarrow> 'r conn" where
  "setHeader name v res = res\<lparr>headers := (headers res)(name \<mapsto> v)\<rparr>"

definition writeHead :: "nat \<Rightarrow> 'r conn \<Rightarrow> 'r conn" where
  "writeHead code res = res\<lparr>statusCode := code\<rparr>"

definition end_response :: "'r body \<Rightarrow> 'r conn \<Rightarrow> 'r conn" where
  "end_response b res = res\<lparr>body := b, ended := True\<rparr>"

definition json :: "'r list \<Rightarrow> 'r conn \<Rightarrow> 'r conn" where
  "json stats res = end_response (JsonBody stats) res"

definition quoted :: "string \<Rightarrow> string" where
  "quoted s = [CHR 0x22] @ s @ [CHR 0x22]"

definition format_message :: "string \<Rightarrow> string" where
  "format_message name =
     quoted name @ '' must have format YYYY-MM-DD or YYYY-MM-DDThh:mm:ss.sssZ''"

text \<open>
  \<open>setCacheControlForStatsResponse\<close>: the boundary is the UTC day of the clock one hour
  ago, and \<open>filter.to >= boundary\<close> compares the two strings.
\<close>

definition setCacheControlForStatsResponse :: "int \<Rightarrow> stats_filter \<Rightarrow> 'r conn \<Rightarrow> 'r conn" where
  "setCacheControlForStatsResponse now flt res =
     (let boundary = getDayAsISOString (now - 3600000) in
      if js_string_ge (filter_to flt) boundary
      then setHeader ''cache-control'' ''public, max-age=600'' res
      else setHeader ''cache-control''
             (''public, max-age='' @ string_of_nat (365 * 24 * 3600) @ '', immutable'') res)"

text \<open>
  \<open>getStatsWithFilterAndCaching\<close>. \<open>fetchStatsFn\<close> is the aggregation query chosen by the
  router: it returns the rows, or \<open>None\<close> when the query rejects (an error of the database
  driver: an object without \<open>statusCode\<close>). \<open>now\<close> is the clock; a run reads it at most
  once, in \<open>today()\<close> or in \<open>setCacheControlForStatsResponse\<close>. The result is what the
  function returns (\<open>{ from, to }\<close> after a redirect, \<open>undefined\<close> after serving) or the
  error it throws, together with the state. \<open>assert(value, 400, message)\<close> of http-assert
  throws an error with that status code and message when the value is falsy.
\<close>

definition getStatsWithFilterAndCaching ::
  "string \<Rightarrow> searchParams \<Rightarrow> (stats_filter \<Rightarrow> 'r list option) \<Rightarrow> int \<Rightarrow> 'r conn
     \<Rightarrow> stats_filter option outcome \<times> 'r conn" where
  "getStatsWithFilterAndCaching pathname searchParams fetchStatsFn now res =
     (let from0 = searchParams_get searchParams ''from'';
          to0 = searchParams_get searchParams ''to'';
          (to1, shouldRedirect1) =
            (case to0 of
               Some t \<Rightarrow> if truthy to0 then (t, False) else (today now, True)
             | None \<Rightarrow> (today now, True));
          (from1, shouldRedirect2) =
            (case from0 of
               Some f \<Rightarrow> if truthy from0 then (f, shouldRedirect1) else (to1, True)
             | None \<Rightarrow> (to1, True))
      in
      if shouldRedirect2 then
        (Returned (Some \<lparr>filter_from = from1, filter_to = to1\<rparr>),
         end_response NoBody (writeHead 302
           (setHeader ''location''
              (pathname @ ''?'' @ URLSearchParams_toString [(''from'', from1), (''to'', to1)])
              (setHeader ''cache-control'' (''public, max-age='' @ string_of_nat 600) res))))
      else
        (case match_date from1 of
           None \<Rightarrow> (Thrown (HttpError 400 (format_message ''from'')), res)
         | Some (fromDay, fromTime) \<Rightarrow>
             let (from2, shouldRedirect3) =
                   (if truthy fromTime then (fromDay, True) else (from1, False))
             in
             (case match_date to1 of
                None \<Rightarrow> (Thrown (HttpError 400 (format_message ''to'')), res)
              | Some (toDay, toTime) \<Rightarrow>
                  let (to2, shouldRedirect4) =
                        (if truthy toTime then (toDay, True) else (to1, shouldRedirect3))
                  in
                  if shouldRedirect4 then
                    (Returned (Some \<lparr>filter_from = from2, filter_to = to2\<rparr>),
                     end_response NoBody (writeHead 301
                       (setHeader ''location''
                          (pathname @ ''?''
                             @ URLSearchParams_toString [(''from'', from2), (''to'', to2)])
                          (setHeader ''cache-control''
                             (''public, max-age='' @ string_of_nat (24 * 3600)) res))))
                  else
                    (let flt = \<lparr>filter_from = from2, filter_to = to2\<rparr>;
                         res1 = res\<lparr>queries := queries res @ [flt]\<rparr>
                     in case fetchStatsFn flt of
                          None \<Rightarrow> (Thrown PlainError, res1)
                        | Some stats \<Rightarrow>
                            (Returned None,
                             json stats (setCacheControlForStatsResponse now flt res1))))))"

text \<open>
  \<open>errorHandler\<close>, and the \<open>.catch\<close> of \<open>createHandler\<close> that routes a thrown error to it.
  \<open>err.statusCode\<close> is tested for truthiness, so a status code 0 counts as none.
\<close>

definition errorHandler :: "js_error \<Rightarrow> 'r conn \<Rightarrow> 'r conn" where
  "errorHandler err res =
     (let res1 =
            (case err of
               SyntaxError \<Rightarrow> end_response (TextBody ''Invalid JSON Body'') (writeHead 400 res)
             | HttpError code message \<Rightarrow>
                 if code \<noteq> 0 then end_response (TextBody message) (writeHead code res)
                 else end_response (TextBody ''Internal Server Error'') (writeHead 500 res)
             | PlainError \<Rightarrow>
                 end_response (TextBody ''Internal Server Error'') (writeHead 500 res))
      in if statusCode res1 \<ge> 500 then res1\<lparr>captured := captured res1 @ [err]\<rparr> else res1)"

definition respond ::
  "string \<Rightarrow> searchParams \<Rightarrow> (stats_filter \<Rightarrow> 'r list option) \<Rightarrow> int \<Rightarrow> 'r conn" where
  "respond pathname searchParams fetchStatsFn now =
     (case getStatsWithFilterAndCaching pathname searchParams fetchStatsFn now fresh of
        (Returned r, res) \<Rightarrow> res
      | (Thrown err, res) \<Rightarrow> errorHandler err res)"

section \<open>Reading a query string back\<close>

text \<open>
  A client that follows a redirect requests \<open>location\<close>, and the handler reads its query
  with \<open>new URL(...).searchParams\<close>: the application/x-www-form-urlencoded parser. It
  splits the query at \<open>&\<close>, skips empty pieces, splits each piece at its first \<open>=\<close>
  (a piece without \<open>=\<close> has the empty value), turns \<open>+\<close> into a space and decodes
  every \<open>%\<close> that is followed by two hexadecimal digits.
\<close>

fun split_on :: "char \<Rightarrow> string \<Rightarrow> string list" where
  "split_on sep [] = [[]]"
| "split_on sep (c # cs) =
     (if c = sep then [] # split_on sep cs
      else (case split_on sep cs of [] \<Rightarrow> [[c]] | p # ps \<Rightarrow> (c # p) # ps))"

definition is_hex :: "char \<Rightarrow> bool" where
  "is_hex c = (c \<in> set ''0123456789ABCDEFabcdef'')"

definition hex_value :: "char \<Rightarrow> nat" where
  "hex_value c =
     (if c \<in> set ''0123456789'' then of_char c - 48
      else if c \<in> set ''ABCDEF'' then of_char c - 55
      else of_char c - 87)"

fun percent_decode :: "string \<Rightarrow> string" where
  "percent_decode (c # h # l # cs) =
     (if c = CHR ''%'' \<and> is_hex h \<and> is_hex l
      then char_of (hex_value h * 16 + hex_value l) # percent_decode cs
      else c # percent_decode (h # l # cs))"
| "percent_decode (c # cs) = c # percent_decode cs"
| "percent_decode [] = []"

definition plus_to_space :: "char \<Rightarrow> char" where
  "plus_to_space c = (if c = CHR ''+'' then CHR '' '' else c)"

definition parse_pair :: "string \<Rightarrow> string \<times> string" where
  "parse_pair piece =
     (let name = takeWhile (\<lambda>c. c \<noteq> CHR ''='') piece;
          val = drop 1 (dropWhile (\<lambda>c. c \<noteq> CHR ''='') piece)
      in (percent_decode (map plus_to_space name), percent_decode (map plus_to_space val)))"

definition parse_urlencoded :: "string \<Rightarrow> searchParams" where
  "parse_urlencoded q = map parse_pair (filter (\<lambda>piece. piece \<noteq> []) (split_on CHR ''&'' q))"

text \<open>\<open>searchParams.delete(name)\<close> removes every pair with that name.\<close>

definition searchParams_delete :: "string \<Rightarrow> searchParams \<Rightarrow> searchParams" where
  "searchParams_delete name ps = filter (\<lambda>(k, v). k \<noteq> name) ps"

section \<open>The success-rate queries\<close>

text \<open>
  The table \<open>retrieval_stats\<close> is a list of rows; a \<open>DATE\<close> is kept as the text
  \<open>YYYY-MM-DD\<close> that \<open>day::text\<close> prints, and the comparison of two days is the
  comparison of their texts. \<open>GROUP BY\<close> with \<open>SUM(total)\<close>, \<open>SUM(successful)\<close> gives one
  row per key that occurs among the selected rows (SQL leaves their order open; the model
  lists the keys in the order of their first row). The columns \<open>total\<close> and
  \<open>successful\<close> hold integers; the driver hands their sums over as decimal texts, which
  \<open>>\<close> and \<open>/\<close> read as numbers. The quotient \<open>r.successful / r.total\<close> is taken in
  the reals: it stands for the JavaScript number nearest to it. \<open>null\<close> is \<open>None\<close>. A
  result row is the pair of its key (\<open>day\<close> or \<open>miner_id\<close>) and its \<open>success_rate\<close>.
\<close>

record retrieval_stats =
  day :: string
  miner_id :: string
  total :: int
  successful :: int

definition day_in_range :: "stats_filter \<Rightarrow> string \<Rightarrow> bool" where
  "day_in_range flt d = (js_string_ge d (filter_from flt) \<and> js_string_ge (filter_to flt) d)"

definition group_sums ::
  "(retrieval_stats \<Rightarrow> string) \<Rightarrow> retrieval_stats list \<Rightarrow> (string \<times> int \<times> int) list" where
  "group_sums key rows =
     map (\<lambda>k. (k, sum_list (map total (filter (\<lambda>r. key r = k) rows)),
                  sum_list (map successful (filter (\<lambda>r. key r = k) rows))))
         (remdups (map key rows))"

definition fetchRetrievalSuccessRate ::
  "retrieval_stats list \<Rightarrow> stats_filter \<Rightarrow> (string \<times> real option) list" where
  "fetchRetrievalSuccessRate table flt =
     (let rows = group_sums day (filter (\<lambda>r. day_in_range flt (day r)) table)
      in map (\<lambda>(r_day, r_total, r_successful).
                (r_day, if r_total > 0 then Some (real_of_int r_successful / real_of_int r_total)
                        else None)) rows)"

definition fetchMinersRSRSummary ::
  "retrieval_stats list \<Rightarrow> stats_filter \<Rightarrow> (string \<times> real option) list" where
  "fetchMinersRSRSummary table flt =
     (let rows = group_sums miner_id (filter (\<lambda>r. day_in_range flt (day r)) table)
      in map (\<lambda>(r_miner_id, r_total, r_successful).
                (r_miner_id,
                 if r_total > 0 then Some (real_of_int r_successful / real_of_int r_total)
                 else None)) rows)"

section \<open>Vocabulary of the properties\<close>

text \<open>
  The two accepted forms of a parameter, each as a pattern of its own:
  \<^verbatim>\<open>YYYY-MM-DD\<close> and \<^verbatim>\<open>YYYY-MM-DDThh:mm:ss.sssZ\<close>.
\<close>

definition is_bare_date :: "string \<Rightarrow> bool" where
  "is_bare_date s = matches_atoms date_atoms s"

definition is_timestamp :: "string \<Rightarrow> bool" where
  "is_timestamp s = matches_atoms (date_atoms @ time_atoms) s"

text \<open>
  A canonical date, said without the pattern: ten characters, digits except for the two
  hyphens after the year and after the month; so no time of day and no offset.
\<close>

definition canonical_date :: "string \<Rightarrow> bool" where
  "canonical_date s =
     (length s = 10 \<and> list_all is_digit (take 4 s) \<and> take 1 (drop 4 s) = ''-''
      \<and> list_all is_digit (take 2 (drop 5 s)) \<and> take 1 (drop 7 s) = ''-''
      \<and> list_all is_digit (drop 8 s))"

text \<open>The value of a parameter after defaulting: \<open>d\<close> when it is \<open>null\<close> or empty.\<close>

definition defaulted :: "string option \<Rightarrow> string \<Rightarrow> string" where
  "defaulted v d = (case v of Some s \<Rightarrow> if s = [] then d else s | None \<Rightarrow> d)"

text \<open>A response that was ended as a redirect with the two headers set.\<close>

definition redirect_response :: "nat \<Rightarrow> string \<Rightarrow> string \<Rightarrow> 'r conn \<Rightarrow> 'r conn" where
  "redirect_response code cache location res =
     res\<lparr>statusCode := code,
         headers := (headers res)(''cache-control'' \<mapsto> cache, ''location'' \<mapsto> location),
         body := NoBody, ended := True\<rparr>"

text \<open>
  A date of the calendar, as opposed to a string of the canonical shape: the month is
  01 to 12 and the day exists in that month of that year (proleptic Gregorian calendar).
  \<open>date_number\<close> reads a canonical date as the number \<open>YYYYMMDD\<close>.
\<close>

definition digit_value :: "char \<Rightarrow> nat" where
  "digit_value c = of_char c - 48"

definition number_of :: "string \<Rightarrow> nat" where
  "number_of s = foldl (\<lambda>n c. 10 * n + digit_value c) 0 s"

definition leap_year :: "nat \<Rightarrow> bool" where
  "leap_year y = (y mod 4 = 0 \<and> (y mod 100 \<noteq> 0 \<or> y mod 400 = 0))"

definition days_in_month :: "nat \<Rightarrow> nat \<Rightarrow> nat" where
  "days_in_month y m =
     (if m = 2 then (if leap_year y then 29 else 28)
      else if m = 4 \<or> m = 6 \<or> m = 9 \<or> m = 11 then 30 else 31)"

definition is_calendar_date :: "string \<Rightarrow> bool" where
  "is_calendar_date s =
     (canonical_date s
      \<and> 1 \<le> number_of (take 2 (drop 5 s)) \<and> number_of (take 2 (drop 5 s)) \<le> 12
      \<and> 1 \<le> number_of (drop 8 s)
      \<and> number_of (drop 8 s) \<le> days_in_month (number_of (take 4 s)) (number_of (take 2 (drop 5 s))))"


text \<open>A query function over an empty table, for the examples.\<close>

definition no_rows :: "stats_filter \<Rightarrow> unit list option" where
  "no_rows flt = Some []"

text \<open>A small table with a day whose total is zero, for the examples.\<close>

definition example_table :: "retrieval_stats list" where
  "example_table =
     [\<lparr>day = ''2024-01-10'', miner_id = ''f1one'', total = 10, successful = 1\<rparr>,
      \<lparr>day = ''2024-01-10'', miner_id = ''f1two'', total = 100, successful = 50\<rparr>,
      \<lparr>day = ''2024-01-11'', miner_id = ''f1one'', total = 20, successful = 1\<rparr>,
      \<lparr>day = ''2024-01-11'', miner_id = ''f1two'', total = 200, successful = 60\<rparr>,
      \<lparr>day = ''2024-01-12'', miner_id = ''f1zero'', total = 0, successful = 0\<rparr>]"

section \<open>Facts about the date pattern\<close>

lemma matches_atoms_length: "matches_atoms as s \<Longrightarrow> length s = length as"
  by (induction as s rule: matches_atoms.induct) auto

lemma matches_atoms_append:
  "length u = length as \<Longrightarrow>
     matches_atoms (as @ bs) (u @ v) = (matches_atoms as u \<and> matches_atoms bs v)"
  by (induction as u rule: matches_atoms.induct) auto

lemma matches_atoms_split:
  "matches_atoms (as @ bs) s =
     (matches_atoms as (take (length as) s) \<and> matches_atoms bs (drop (length as) s))"
proof (cases "length as \<le> length s")
  case True
  then have "length (take (length as) s) = length as" by simp
  from matches_atoms_append[OF this, of bs "drop (length as) s"] show ?thesis by simp
next
  case False
  then have "length s \<noteq> length (as @ bs)" "length (take (length as) s) \<noteq> length as" by auto
  then show ?thesis using matches_atoms_length by blast
qed

lemma length_date_atoms: "length date_atoms = 10"
  by (simp add: date_atoms_def)

lemma length_time_atoms: "length time_atoms = 14"
  by (simp add: time_atoms_def)

lemma is_bare_date_length: "is_bare_date s \<Longrightarrow> length s = 10"
  unfolding is_bare_date_def using matches_atoms_length length_date_atoms by fastforce

lemma is_timestamp_length: "is_timestamp s \<Longrightarrow> length s = 24"
  unfolding is_timestamp_def using matches_atoms_length[of "date_atoms @ time_atoms" s]
  by (simp add: length_date_atoms length_time_atoms)

lemma is_timestamp_split:
  "is_timestamp s = (is_bare_date (take 10 s) \<and> matches_atoms time_atoms (drop 10 s))"
  unfolding is_timestamp_def is_bare_date_def
  using matches_atoms_split[of date_atoms time_atoms s] by (simp add: length_date_atoms)

lemma not_bare_and_timestamp: "is_bare_date s \<Longrightarrow> \<not> is_timestamp s"
  using is_bare_date_length is_timestamp_length by fastforce

lemma match_date_cases:
  "match_date s =
     (if is_bare_date s then Some (s, None)
      else if is_timestamp s then Some (take 10 s, Some (drop 10 s))
      else None)"
proof (cases "drop 10 s = []")
  case True
  then have short: "take 10 s = s" by simp
  have nt: "\<not> is_timestamp s" using True is_timestamp_length by fastforce
  show ?thesis using True short nt by (simp add: match_date_def is_bare_date_def)
next
  case False
  then have "length s \<noteq> 10" by auto
  then have nb: "\<not> is_bare_date s" using is_bare_date_length by blast
  show ?thesis using False nb
    by (simp add: match_date_def is_timestamp_split is_bare_date_def Let_def)
qed

lemma matches_atoms_chars:
  "matches_atoms as s \<Longrightarrow> c \<in> set s \<Longrightarrow> \<exists>a \<in> set as. atom_matches a c"
  by (induction as s rule: matches_atoms.induct) auto

lemma bare_date_chars: "is_bare_date s \<Longrightarrow> c \<in> set s \<Longrightarrow> is_digit c \<or> c = CHR ''-''"
  unfolding is_bare_date_def
  by (drule matches_atoms_chars, assumption) (auto simp: date_atoms_def)

lemma list10:
  assumes "length s = 10"
  obtains a b c d e f g h i j where "s = [a, b, c, d, e, f, g, h, i, j]"
  using assms by (auto simp: numeral_eq_Suc length_Suc_conv)

lemma is_bare_date_canonical: "is_bare_date s = canonical_date s"
proof (cases "length s = 10")
  case True
  then obtain a b c d e f g h i j where "s = [a, b, c, d, e, f, g, h, i, j]" by (rule list10)
  then show ?thesis by (auto simp: is_bare_date_def canonical_date_def date_atoms_def)
next
  case False
  then show ?thesis using is_bare_date_length by (auto simp: canonical_date_def)
qed

lemma is_bare_date_nonempty: "is_bare_date s \<Longrightarrow> s \<noteq> []"
  using is_bare_date_length by fastforce

lemma is_timestamp_nonempty: "is_timestamp s \<Longrightarrow> s \<noteq> []"
  using is_timestamp_length by fastforce

lemma match_date_accepted:
  assumes "is_bare_date s \<or> is_timestamp s"
  shows "match_date s = Some (take 10 s, if is_timestamp s then Some (drop 10 s) else None)"
  using assms not_bare_and_timestamp[of s] is_bare_date_length[of s]
  by (auto simp: match_date_cases)

lemma timestamp_time_truthy: "is_timestamp s \<Longrightarrow> drop 10 s \<noteq> []"
  using is_timestamp_length by fastforce

lemma take10_bare: "is_bare_date s \<or> is_timestamp s \<Longrightarrow> is_bare_date (take 10 s)"
  using is_bare_date_length[of s] by (auto simp: is_timestamp_split)

lemma accepted_nonempty: "is_bare_date s \<or> is_timestamp s \<Longrightarrow> s \<noteq> []"
  using is_bare_date_nonempty is_timestamp_nonempty by blast

lemma urlencode_unreserved: "\<forall>c \<in> set s. is_unreserved c \<Longrightarrow> urlencode s = s"
  by (induction s) (auto simp: urlencode_def encode_byte_def)

lemma digit_unreserved: "is_digit c \<or> c = CHR ''-'' \<Longrightarrow> is_unreserved c"
  by (auto simp: is_digit_def is_unreserved_def)

lemma urlencode_bare_date: "is_bare_date s \<Longrightarrow> urlencode s = s"
  by (rule urlencode_unreserved) (blast intro: digit_unreserved dest: bare_date_chars)

section \<open>The order of canonical dates\<close>














section \<open>Facts about the redirect query string\<close>

lemma percent_decode_plain:
  assumes "c \<noteq> CHR ''%''"
  shows "percent_decode (c # cs) = c # percent_decode cs"
proof (cases cs)
  case Nil
  then show ?thesis by simp
next
  case (Cons h hs)
  then show ?thesis using assms by (cases hs) simp_all
qed

lemma below_16:
  "n < 16 \<Longrightarrow> n \<in> {0, 1, 2, 3, 4, 5, 6, 7, 8, 9, 10, 11, 12, 13, 14, 15 :: nat}"
  by simp arith

lemma hex_digit_roundtrip:
  assumes "n < 16"
  shows "is_hex (hex_digit n)" and "hex_value (hex_digit n) = n"
    and "plus_to_space (hex_digit n) = hex_digit n"
  using below_16[OF assms]
  by (auto simp: hex_digit_def is_hex_def hex_value_def plus_to_space_def)

lemma of_char_split: "of_char c div 16 * 16 + of_char c mod 16 = (of_char c :: nat)"
  by simp

lemma of_char_high: "(of_char c :: nat) div 16 < 16"
proof -
  have "(of_char c :: nat) < 256" by simp
  then show ?thesis by arith
qed

lemma unreserved_plain:
  "is_unreserved c \<Longrightarrow> c \<noteq> CHR ''%'' \<and> c \<noteq> CHR ''+'' \<and> c \<noteq> CHR ''&'' \<and> c \<noteq> CHR ''=''"
  by (auto simp: is_unreserved_def)

lemma decode_encode_byte:
  "percent_decode (map plus_to_space (encode_byte c) @ cs) = c # percent_decode cs"
proof (cases "is_unreserved c")
  case True
  then show ?thesis
    using unreserved_plain[OF True] by (simp add: encode_byte_def plus_to_space_def percent_decode_plain)
next
  case False
  show ?thesis
  proof (cases "c = CHR '' ''")
    case True
    then show ?thesis using False by (simp add: encode_byte_def plus_to_space_def percent_decode_plain)
  next
    case ns: False
    have hi: "(of_char c :: nat) div 16 < 16" by (rule of_char_high)
    have lo: "(of_char c :: nat) mod 16 < 16" by simp
    have "char_of (hex_value (hex_digit (of_char c div 16)) * 16
            + hex_value (hex_digit (of_char c mod 16))) = c"
      by (simp only: hex_digit_roundtrip(2)[OF hi] hex_digit_roundtrip(2)[OF lo] of_char_split char_of_char)
    then show ?thesis
      using False ns hex_digit_roundtrip(1,3)[OF hi] hex_digit_roundtrip(1,3)[OF lo]
      by (simp add: encode_byte_def plus_to_space_def)
  qed
qed

lemma urlencode_Cons: "urlencode (c # cs) = encode_byte c @ urlencode cs"
  by (simp add: urlencode_def)

lemma decode_urlencode: "percent_decode (map plus_to_space (urlencode s)) = s"
  by (induction s) (simp_all add: urlencode_Cons decode_encode_byte, simp add: urlencode_def)

lemma hex_digit_plain: "hex_digit n \<noteq> CHR ''&'' \<and> hex_digit n \<noteq> CHR ''=''"
proof -
  have "n mod 16 < 16" by simp
  from below_16[OF this] show ?thesis by (auto simp: hex_digit_def)
qed

lemma encode_byte_chars: "x \<in> set (encode_byte c) \<Longrightarrow> x \<noteq> CHR ''&'' \<and> x \<noteq> CHR ''=''"
  using unreserved_plain[of c] hex_digit_plain
  by (auto simp: encode_byte_def split: if_splits)

lemma urlencode_chars: "x \<in> set (urlencode s) \<Longrightarrow> x \<noteq> CHR ''&'' \<and> x \<noteq> CHR ''=''"
  using encode_byte_chars by (auto simp: urlencode_def)

lemma urlencode_safe:
  "c \<in> set (urlencode s) \<Longrightarrow> is_unreserved c \<or> c = CHR ''+'' \<or> c = CHR ''%'' \<or> is_hex c"
proof -
  have h: "is_hex (hex_digit n)" for n
    using hex_digit_roundtrip(1)[of "n mod 16"] by (simp add: hex_digit_def)
  have "x \<in> set (encode_byte b) \<Longrightarrow> is_unreserved x \<or> x = CHR ''+'' \<or> x = CHR ''%'' \<or> is_hex x"
    for x b
    using h by (auto simp: encode_byte_def split: if_splits)
  then show "c \<in> set (urlencode s) \<Longrightarrow> ?thesis" by (auto simp: urlencode_def)
qed

lemma split_on_absent: "sep \<notin> set s \<Longrightarrow> split_on sep s = [s]"
  by (induction s) auto

lemma split_on_first: "sep \<notin> set a \<Longrightarrow> split_on sep (a @ sep # b) = a # split_on sep b"
  by (induction a) auto

lemma takeWhile_until: "sep \<notin> set n \<Longrightarrow> takeWhile (\<lambda>c. c \<noteq> sep) (n @ sep # v) = n"
  by (induction n) auto

lemma dropWhile_until:
  "sep \<notin> set n \<Longrightarrow> dropWhile (\<lambda>c. c \<noteq> sep) (n @ sep # v) = sep # v"
  by (induction n) auto

lemma parse_pair_encoded:
  assumes "CHR ''='' \<notin> set n"
  shows "parse_pair (n @ CHR ''='' # v)
           = (percent_decode (map plus_to_space n), percent_decode (map plus_to_space v))"
proof -
  have "takeWhile (\<lambda>c. c \<noteq> CHR ''='') (n @ CHR ''='' # v) = n"
    using assms by (rule takeWhile_until)
  moreover have "dropWhile (\<lambda>c. c \<noteq> CHR ''='') (n @ CHR ''='' # v) = CHR ''='' # v"
    using assms by (rule dropWhile_until)
  ultimately show ?thesis by (simp add: parse_pair_def)
qed

lemma parse_from_to:
  "parse_urlencoded (''from='' @ urlencode f @ ''&to='' @ urlencode t) = [(''from'', f), (''to'', t)]"
proof -
  have amp: "CHR ''&'' \<notin> set (''from='' @ urlencode f)" "CHR ''&'' \<notin> set (''to='' @ urlencode t)"
    using urlencode_chars by auto
  have "''from='' @ urlencode f @ ''&to='' @ urlencode t
          = (''from='' @ urlencode f) @ CHR ''&'' # (''to='' @ urlencode t)" by simp
  then have "split_on CHR ''&'' (''from='' @ urlencode f @ ''&to='' @ urlencode t)
          = [''from='' @ urlencode f, ''to='' @ urlencode t]"
    using split_on_first[OF amp(1)] split_on_absent[OF amp(2)] by metis
  moreover have "parse_pair (''from='' @ urlencode f) = (''from'', f)"
    using parse_pair_encoded[of "''from''" "urlencode f"]
    by (simp add: decode_urlencode plus_to_space_def)
  moreover have "parse_pair (''to='' @ urlencode t) = (''to'', t)"
    using parse_pair_encoded[of "''to''" "urlencode t"]
    by (simp add: decode_urlencode plus_to_space_def)
  ultimately show ?thesis by (simp add: parse_urlencoded_def)
qed

lemma urlencode_append: "urlencode (a @ b) = urlencode a @ urlencode b"
  by (simp add: urlencode_def)

lemma query_from_to:
  "URLSearchParams_toString [(''from'', f), (''to'', t)] =
     ''from='' @ urlencode f @ ''&to='' @ urlencode t"
  by (simp add: urlencode_def encode_byte_def is_unreserved_def)

section \<open>The five ways through the request pipeline\<close>

lemma string_of_nat_600: "string_of_nat 600 = ''600''"
  by (simp add: string_of_nat.simps digit_char_def)

lemma string_of_nat_day: "string_of_nat 86400 = ''86400''"
  by (simp add: string_of_nat.simps digit_char_def)

lemma string_of_nat_year: "string_of_nat 31536000 = ''31536000''"
  by (simp add: string_of_nat.simps digit_char_def)

lemma default_to_stage:
  "(case v of Some t \<Rightarrow> if truthy v then (t, False) else (d, True) | None \<Rightarrow> (d, True))
     = (defaulted v d, \<not> truthy v)"
  by (cases v) (simp_all add: defaulted_def)

lemma default_from_stage:
  "(case v of Some f \<Rightarrow> if truthy v then (f, r) else (d, True) | None \<Rightarrow> (d, True))
     = (defaulted v d, r \<or> \<not> truthy v)"
  by (cases v) (simp_all add: defaulted_def)

lemmas response_defs = end_response_def writeHead_def setHeader_def json_def redirect_response_def

lemma path_default:
  assumes "\<not> truthy (searchParams_get sp ''to'') \<or> \<not> truthy (searchParams_get sp ''from'')"
  shows "getStatsWithFilterAndCaching pathname sp fetchStatsFn now res =
           (let t = defaulted (searchParams_get sp ''to'') (today now);
                f = defaulted (searchParams_get sp ''from'') t
            in (Returned (Some \<lparr>filter_from = f, filter_to = t\<rparr>),
                redirect_response 302 ''public, max-age=600''
                  (pathname @ ''?from='' @ urlencode f @ ''&to='' @ urlencode t) res))"
  unfolding getStatsWithFilterAndCaching_def default_to_stage default_from_stage
  using assms
  by (simp add: Let_def response_defs string_of_nat_600 query_from_to
        del: URLSearchParams_toString.simps)

lemma path_bad_from:
  assumes "searchParams_get sp ''to'' = Some t" "t \<noteq> []"
      and "searchParams_get sp ''from'' = Some f" "f \<noteq> []"
      and "match_date f = None"
  shows "getStatsWithFilterAndCaching pathname sp fetchStatsFn now res =
           (Thrown (HttpError 400 (format_message ''from'')), res)"
  unfolding getStatsWithFilterAndCaching_def default_to_stage default_from_stage
  using assms
  by (simp add: defaulted_def)

lemma path_bad_to:
  assumes "searchParams_get sp ''to'' = Some t" "t \<noteq> []"
      and "searchParams_get sp ''from'' = Some f" "f \<noteq> []"
      and "match_date f = Some (fd, ft)" "match_date t = None"
  shows "getStatsWithFilterAndCaching pathname sp fetchStatsFn now res =
           (Thrown (HttpError 400 (format_message ''to'')), res)"
  unfolding getStatsWithFilterAndCaching_def default_to_stage default_from_stage
  using assms
  by (simp add: defaulted_def)

lemma path_trim:
  assumes "searchParams_get sp ''to'' = Some t" "t \<noteq> []"
      and "searchParams_get sp ''from'' = Some f" "f \<noteq> []"
      and "match_date f = Some (fd, ft)" "match_date t = Some (td, tt)"
      and "truthy ft \<or> truthy tt"
  shows "getStatsWithFilterAndCaching pathname sp fetchStatsFn now res =
           (let f2 = (if truthy ft then fd else f); t2 = (if truthy tt then td else t)
            in (Returned (Some \<lparr>filter_from = f2, filter_to = t2\<rparr>),
                redirect_response 301 ''public, max-age=86400''
                  (pathname @ ''?from='' @ urlencode f2 @ ''&to='' @ urlencode t2) res))"
  unfolding getStatsWithFilterAndCaching_def default_to_stage default_from_stage
  using assms
  by (cases "truthy ft"; cases "truthy tt")
     (simp_all add: Let_def defaulted_def response_defs string_of_nat_day query_from_to
        del: URLSearchParams_toString.simps)

lemma path_serve:
  assumes "searchParams_get sp ''to'' = Some t" "t \<noteq> []"
      and "searchParams_get sp ''from'' = Some f" "f \<noteq> []"
      and "match_date f = Some (fd, ft)" "match_date t = Some (td, tt)"
      and "\<not> truthy ft" "\<not> truthy tt"
  shows "getStatsWithFilterAndCaching pathname sp fetchStatsFn now res =
           (let flt = \<lparr>filter_from = f, filter_to = t\<rparr>;
                res1 = res\<lparr>queries := queries res @ [flt]\<rparr>
            in case fetchStatsFn flt of
                 None \<Rightarrow> (Thrown PlainError, res1)
               | Some stats \<Rightarrow>
                   (Returned None, json stats (setCacheControlForStatsResponse now flt res1)))"
  unfolding getStatsWithFilterAndCaching_def default_to_stage default_from_stage
  using assms
  by (simp add: Let_def defaulted_def)

lemma getStats_bad_from:
  assumes "searchParams_get sp ''to'' = Some t" "t \<noteq> []"
      and "searchParams_get sp ''from'' = Some f" "f \<noteq> []"
      and "\<not> is_bare_date f" "\<not> is_timestamp f"
  shows "getStatsWithFilterAndCaching pathname sp fetchStatsFn now res =
           (Thrown (HttpError 400 (format_message ''from'')), res)"
proof -
  have "match_date f = None" using assms(5,6) by (simp add: match_date_cases)
  then show ?thesis by (rule path_bad_from[OF assms(1-4)])
qed

lemma getStats_bad_to:
  assumes "searchParams_get sp ''to'' = Some t" "t \<noteq> []"
      and "searchParams_get sp ''from'' = Some f" "f \<noteq> []"
      and "is_bare_date f \<or> is_timestamp f"
      and "\<not> is_bare_date t" "\<not> is_timestamp t"
  shows "getStatsWithFilterAndCaching pathname sp fetchStatsFn now res =
           (Thrown (HttpError 400 (format_message ''to'')), res)"
proof -
  have "match_date t = None" using assms(6,7) by (simp add: match_date_cases)
  then show ?thesis by (rule path_bad_to[OF assms(1-4) match_date_accepted[OF assms(5)]])
qed

lemma getStats_trim:
  assumes "searchParams_get sp ''from'' = Some f" "searchParams_get sp ''to'' = Some t"
      and "is_bare_date f \<or> is_timestamp f" "is_bare_date t \<or> is_timestamp t"
      and "is_timestamp f \<or> is_timestamp t"
  shows "getStatsWithFilterAndCaching pathname sp fetchStatsFn now res =
           (Returned (Some \<lparr>filter_from = take 10 f, filter_to = take 10 t\<rparr>),
            redirect_response 301 ''public, max-age=86400''
              (pathname @ ''?from='' @ take 10 f @ ''&to='' @ take 10 t) res)"
proof -
  have ne: "t \<noteq> []" "f \<noteq> []" using assms(3,4) accepted_nonempty by blast+
  have tr: "truthy (if is_timestamp f then Some (drop 10 f) else None)
              \<or> truthy (if is_timestamp t then Some (drop 10 t) else None)"
    using assms(5) timestamp_time_truthy by auto
  have keep: "\<not> is_timestamp f \<Longrightarrow> take 10 f = f" "\<not> is_timestamp t \<Longrightarrow> take 10 t = t"
    using assms(3,4) is_bare_date_length by fastforce+
  have enc: "urlencode (take 10 f) = take 10 f" "urlencode (take 10 t) = take 10 t"
    using take10_bare[OF assms(3)] take10_bare[OF assms(4)] urlencode_bare_date by blast+
  show ?thesis
    unfolding path_trim[OF assms(2) ne(1) assms(1) ne(2) match_date_accepted[OF assms(3)]
                match_date_accepted[OF assms(4)] tr]
    using keep enc timestamp_time_truthy by (auto simp: Let_def)
qed

lemma getStats_serve:
  assumes "searchParams_get sp ''from'' = Some f" "searchParams_get sp ''to'' = Some t"
      and "is_bare_date f" "is_bare_date t"
  shows "getStatsWithFilterAndCaching pathname sp fetchStatsFn now res =
           (case fetchStatsFn \<lparr>filter_from = f, filter_to = t\<rparr> of
              None \<Rightarrow> (Thrown PlainError, res\<lparr>queries := queries res @ [\<lparr>filter_from = f, filter_to = t\<rparr>]\<rparr>)
            | Some stats \<Rightarrow>
                (Returned None,
                 res\<lparr>headers := (headers res)(''cache-control'' \<mapsto>
                        (if js_string_ge t (getDayAsISOString (now - 3600000))
                         then ''public, max-age=600''
                         else ''public, max-age=31536000, immutable'')),
                     body := JsonBody stats, ended := True,
                     queries := queries res @ [\<lparr>filter_from = f, filter_to = t\<rparr>]\<rparr>))"
proof -
  have ne: "t \<noteq> []" "f \<noteq> []" using assms(3,4) is_bare_date_nonempty by blast+
  have m: "match_date f = Some (f, None)" "match_date t = Some (t, None)"
    using assms(3,4) by (simp_all add: match_date_cases)
  have nt: "\<not> truthy None" by simp
  show ?thesis
    unfolding path_serve[OF assms(2) ne(1) assms(1) ne(2) m nt nt]
    by (simp add: Let_def setCacheControlForStatsResponse_def response_defs string_of_nat_year
          split: option.splits)
qed

lemma getStats_cong:
  assumes "searchParams_get sp ''from'' = searchParams_get sp' ''from''"
      and "searchParams_get sp ''to'' = searchParams_get sp' ''to''"
  shows "getStatsWithFilterAndCaching pathname sp fetchStatsFn now res
           = getStatsWithFilterAndCaching pathname sp' fetchStatsFn now res"
  unfolding getStatsWithFilterAndCaching_def assms ..

lemma get_delete_same: "searchParams_get (searchParams_delete name sp) name = None"
  by (induction sp) (auto simp: searchParams_delete_def)

lemma get_delete_other:
  "name' \<noteq> name \<Longrightarrow> searchParams_get (searchParams_delete name sp) name' = searchParams_get sp name'"
  by (induction sp) (auto simp: searchParams_delete_def)

lemma getStats_empty_absent:
  assumes "searchParams_get sp name = Some []" and "name = ''to'' \<or> name = ''from''"
  shows "getStatsWithFilterAndCaching pathname sp fetchStatsFn now res
           = getStatsWithFilterAndCaching pathname (searchParams_delete name sp) fetchStatsFn now res"
proof -
  have d: "\<not> truthy (searchParams_get sp ''to'') \<or> \<not> truthy (searchParams_get sp ''from'')"
    using assms by auto
  have d': "\<not> truthy (searchParams_get (searchParams_delete name sp) ''to'')
              \<or> \<not> truthy (searchParams_get (searchParams_delete name sp) ''from'')"
    using assms(2) get_delete_same[of name sp] by auto
  have "defaulted (searchParams_get (searchParams_delete name sp) ''to'') d
          = defaulted (searchParams_get sp ''to'') d" for d
    using assms get_delete_same[of name sp] get_delete_other[of "''to''" name sp]
    by (auto simp: defaulted_def)
  moreover have "defaulted (searchParams_get (searchParams_delete name sp) ''from'') d
          = defaulted (searchParams_get sp ''from'') d" for d
    using assms get_delete_same[of name sp] get_delete_other[of "''from''" name sp]
    by (auto simp: defaulted_def)
  ultimately show ?thesis
    unfolding path_default[OF d] path_default[OF d'] by simp
qed

section \<open>The response of each way, after the error handler\<close>

lemma errorHandler_400:
  "errorHandler (HttpError 400 m) res = res\<lparr>statusCode := 400, body := TextBody m, ended := True\<rparr>"
  by (simp add: errorHandler_def response_defs)

lemma errorHandler_plain:
  "errorHandler PlainError res =
     res\<lparr>statusCode := 500, body := TextBody ''Internal Server Error'', ended := True,
         captured := captured res @ [PlainError]\<rparr>"
  by (simp add: errorHandler_def response_defs)

lemma respond_default:
  assumes "\<not> truthy (searchParams_get sp ''to'') \<or> \<not> truthy (searchParams_get sp ''from'')"
  shows "respond pathname sp fetchStatsFn now =
           redirect_response 302 ''public, max-age=600''
             (pathname @ ''?from=''
                @ urlencode (defaulted (searchParams_get sp ''from'')
                               (defaulted (searchParams_get sp ''to'') (today now)))
                @ ''&to='' @ urlencode (defaulted (searchParams_get sp ''to'') (today now)))
             fresh"
  by (simp add: respond_def path_default[OF assms] Let_def)

lemma respond_bad_from:
  assumes "searchParams_get sp ''to'' = Some t" "t \<noteq> []"
      and "searchParams_get sp ''from'' = Some f" "f \<noteq> []"
      and "\<not> is_bare_date f" "\<not> is_timestamp f"
  shows "respond pathname sp fetchStatsFn now =
           fresh\<lparr>statusCode := 400, body := TextBody (format_message ''from''), ended := True\<rparr>"
proof -
  have "match_date f = None" using assms(5,6) by (simp add: match_date_cases)
  then show ?thesis
    by (simp add: respond_def errorHandler_400 path_bad_from[OF assms(1-4)])
qed

lemma respond_bad_to:
  assumes "searchParams_get sp ''to'' = Some t" "t \<noteq> []"
      and "searchParams_get sp ''from'' = Some f" "f \<noteq> []"
      and "is_bare_date f \<or> is_timestamp f"
      and "\<not> is_bare_date t" "\<not> is_timestamp t"
  shows "respond pathname sp fetchStatsFn now =
           fresh\<lparr>statusCode := 400, body := TextBody (format_message ''to''), ended := True\<rparr>"
proof -
  have "match_date t = None" using assms(6,7) by (simp add: match_date_cases)
  then show ?thesis
    by (simp add: respond_def errorHandler_400
          path_bad_to[OF assms(1-4) match_date_accepted[OF assms(5)]])
qed

lemma respond_trim:
  assumes "searchParams_get sp ''from'' = Some f" "searchParams_get sp ''to'' = Some t"
      and "is_bare_date f \<or> is_timestamp f" "is_bare_date t \<or> is_timestamp t"
      and "is_timestamp f \<or> is_timestamp t"
  shows "respond pathname sp fetchStatsFn now =
           redirect_response 301 ''public, max-age=86400''
             (pathname @ ''?from='' @ take 10 f @ ''&to='' @ take 10 t) fresh"
  by (simp add: respond_def getStats_trim[OF assms])

lemma respond_serve:
  assumes "searchParams_get sp ''from'' = Some f" "searchParams_get sp ''to'' = Some t"
      and "is_bare_date f" "is_bare_date t"
  shows "respond pathname sp fetchStatsFn now =
           (case fetchStatsFn \<lparr>filter_from = f, filter_to = t\<rparr> of
              None \<Rightarrow>
                fresh\<lparr>statusCode := 500, body := TextBody ''Internal Server Error'',
                      ended := True, queries := [\<lparr>filter_from = f, filter_to = t\<rparr>],
                      captured := [PlainError]\<rparr>
            | Some stats \<Rightarrow>
                fresh\<lparr>headers := [''cache-control'' \<mapsto>
                        (if js_string_ge t (getDayAsISOString (now - 3600000))
                         then ''public, max-age=600''
                         else ''public, max-age=31536000, immutable'')],
                      body := JsonBody stats, ended := True,
                      queries := [\<lparr>filter_from = f, filter_to = t\<rparr>]\<rparr>)"
  by (simp add: respond_def getStats_serve[OF assms] errorHandler_plain fresh_def
        split: option.splits)

lemma respond_serve_status:
  assumes "searchParams_get sp ''from'' = Some f" "searchParams_get sp ''to'' = Some t"
      and "is_bare_date f" "is_bare_date t"
  shows "statusCode (respond pathname sp fetchStatsFn now) \<notin> {301, 302, 400}
         \<and> queries (respond pathname sp fetchStatsFn now) = [\<lparr>filter_from = f, filter_to = t\<rparr>]"
  by (simp add: respond_serve[OF assms] fresh_def split: option.splits)

lemma request_cases [case_names default bad_from bad_to trim serve]:
  obtains
    (default) "\<not> truthy (searchParams_get sp ''to'') \<or> \<not> truthy (searchParams_get sp ''from'')"
  | (bad_from) f t where "searchParams_get sp ''from'' = Some f" "f \<noteq> []"
      "searchParams_get sp ''to'' = Some t" "t \<noteq> []" "\<not> is_bare_date f" "\<not> is_timestamp f"
  | (bad_to) f t where "searchParams_get sp ''from'' = Some f" "f \<noteq> []"
      "searchParams_get sp ''to'' = Some t" "t \<noteq> []" "is_bare_date f \<or> is_timestamp f"
      "\<not> is_bare_date t" "\<not> is_timestamp t"
  | (trim) f t where "searchParams_get sp ''from'' = Some f" "searchParams_get sp ''to'' = Some t"
      "is_bare_date f \<or> is_timestamp f" "is_bare_date t \<or> is_timestamp t"
      "is_timestamp f \<or> is_timestamp t"
  | (serve) f t where "searchParams_get sp ''from'' = Some f" "searchParams_get sp ''to'' = Some t"
      "is_bare_date f" "is_bare_date t"
proof (cases "truthy (searchParams_get sp ''to'') \<and> truthy (searchParams_get sp ''from'')")
  case False
  then show ?thesis using default by blast
next
  case True
  then obtain f t where ft: "searchParams_get sp ''from'' = Some f" "f \<noteq> []"
      "searchParams_get sp ''to'' = Some t" "t \<noteq> []"
    by (cases "searchParams_get sp ''to''"; cases "searchParams_get sp ''from''") auto
  show ?thesis
    using ft bad_from[of f t] bad_to[of f t] trim[of f t] serve[of f t] by blast
qed

lemma redirect_cases [consumes 2, case_names default trim]:
  assumes "getStatsWithFilterAndCaching pathname sp fetchStatsFn now fresh = (out, res)"
      and "statusCode res \<in> {301, 302}"
  obtains
    (default) "\<not> truthy (searchParams_get sp ''to'') \<or> \<not> truthy (searchParams_get sp ''from'')"
      "statusCode res = 302"
  | (trim) f t where "searchParams_get sp ''from'' = Some f" "searchParams_get sp ''to'' = Some t"
      "is_bare_date f \<or> is_timestamp f" "is_bare_date t \<or> is_timestamp t"
      "is_timestamp f \<or> is_timestamp t" "statusCode res = 301"
proof (cases rule: request_cases[of sp])
  case d: default
  from assms(1) have "statusCode res = 302"
    by (auto simp: path_default[OF d] Let_def redirect_response_def)
  with d show ?thesis by (rule default)
next
  case (bad_from f t)
  from assms show ?thesis
    by (auto simp: getStats_bad_from[OF bad_from(3,4,1,2,5,6)] fresh_def)
next
  case (bad_to f t)
  from assms show ?thesis
    by (auto simp: getStats_bad_to[OF bad_to(3,4,1,2,5,6,7)] fresh_def)
next
  case t: (trim f t)
  from assms(1) have "statusCode res = 301"
    by (auto simp: getStats_trim[OF t] redirect_response_def)
  with t show ?thesis by (rule trim)
next
  case (serve f t)
  from assms show ?thesis
    by (auto simp: getStats_serve[OF serve] fresh_def split: option.splits)
qed

lemma respond_status_cases:
  "statusCode (respond pathname sp fetchStatsFn now) \<in> {200, 301, 302, 400, 500}"
proof (cases rule: request_cases[of sp])
  case default
  show ?thesis by (simp add: respond_default[OF default] redirect_response_def)
next
  case (bad_from f t)
  show ?thesis by (simp add: respond_bad_from[OF bad_from(3,4,1,2,5,6)])
next
  case (bad_to f t)
  show ?thesis by (simp add: respond_bad_to[OF bad_to(3,4,1,2,5,6,7)])
next
  case (trim f t)
  show ?thesis by (simp add: respond_trim[OF trim] redirect_response_def)
next
  case (serve f t)
  show ?thesis by (simp add: respond_serve[OF serve] fresh_def split: option.splits)
qed

lemma serve_after_redirect:
  assumes "is_bare_date f" "is_bare_date t"
  shows "statusCode (respond pathname
             (parse_urlencoded (''from='' @ urlencode f @ ''&to='' @ urlencode t)) fetchStatsFn now)
           \<notin> {301, 302, 400}
         \<and> queries (respond pathname
             (parse_urlencoded (''from='' @ urlencode f @ ''&to='' @ urlencode t)) fetchStatsFn now)
           = [\<lparr>filter_from = f, filter_to = t\<rparr>]"
  unfolding parse_from_to by (rule respond_serve_status[OF _ _ assms]) simp_all

lemma defaulted_bare:
  assumes "\<And>s. v = Some s \<Longrightarrow> s \<noteq> [] \<Longrightarrow> is_bare_date s" "is_bare_date d"
  shows "is_bare_date (defaulted v d)"
  using assms by (cases v) (auto simp: defaulted_def)

section \<open>The grouped sums\<close>

lemma group_sums_row:
  assumes "(k, tot, suc) \<in> set (group_sums key rows)"
  shows "tot = sum_list (map total (filter (\<lambda>r. key r = k) rows))"
    and "suc = sum_list (map successful (filter (\<lambda>r. key r = k) rows))"
    and "filter (\<lambda>r. key r = k) rows \<noteq> []"
  using assms by (auto simp: group_sums_def filter_empty_conv)

section \<open>Evaluation at the examples\<close>

lemma today_example: "today 1704894284289 = ''2024-01-10''"
  by code_simp

lemma boundary_example: "getDayAsISOString 1704890684289 = ''2024-01-10''"
  by code_simp

lemmas urlencode_eval = urlencode_def encode_byte_def is_unreserved_def hex_digit_def

lemmas pattern_eval = is_bare_date_def is_timestamp_def date_atoms_def time_atoms_def is_digit_def

lemmas fetch_eval = fetchRetrievalSuccessRate_def fetchMinersRSRSummary_def group_sums_def
  day_in_range_def js_string_ge_def example_table_def

lemmas calendar_eval = is_calendar_date_def canonical_date_def is_digit_def number_of_def
  digit_value_def days_in_month_def leap_year_def

text \<open>
  Two further runs at the example clock: a timestamp next to a malformed value is a 400,
  and the target of a 302 that carries a malformed \<open>from\<close> is a 400 when requested.
\<close>

lemma timestamp_with_malformed_example:
  "statusCode (respond ''/retrieval-success-rate''
       [(''from'', ''2024-01-10T13:44:44.289Z''), (''to'', ''2024/01/15'')] no_rows 1704894284289)
     = 400"
  by (subst respond_bad_to[of _ "''2024/01/15''" "''2024-01-10T13:44:44.289Z''"])
     (simp_all add: pattern_eval)

lemma malformed_redirect_target_example:
  "headers (respond ''/retrieval-success-rate'' [(''from'', ''Jan 1 2024'')] no_rows 1704894284289)
       ''location''
     = Some ''/retrieval-success-rate?from=Jan+1+2024&to=2024-01-10''
   \<and> statusCode (respond ''/retrieval-success-rate''
         (parse_urlencoded ''from=Jan+1+2024&to=2024-01-10'') no_rows 1704894284289) = 400"
proof -
  have d: "\<not> truthy (searchParams_get [(''from'', ''Jan 1 2024'')] ''to'')
             \<or> \<not> truthy (searchParams_get [(''from'', ''Jan 1 2024'')] ''from'')"
    by simp
  have first: "headers (respond ''/retrieval-success-rate'' [(''from'', ''Jan 1 2024'')] no_rows
                 1704894284289) ''location''
               = Some ''/retrieval-success-rate?from=Jan+1+2024&to=2024-01-10''"
    by (simp add: respond_default[OF d] redirect_response_def defaulted_def today_example
          urlencode_eval)
  have p: "parse_urlencoded ''from=Jan+1+2024&to=2024-01-10''
             = [(''from'', ''Jan 1 2024''), (''to'', ''2024-01-10'')]"
    using parse_from_to[of "''Jan 1 2024''" "''2024-01-10''"] by (simp add: urlencode_eval)
  have second: "statusCode (respond ''/retrieval-success-rate''
                  [(''from'', ''Jan 1 2024''), (''to'', ''2024-01-10'')] no_rows 1704894284289)
                = 400"
    by (subst respond_bad_from[of _ "''2024-01-10''" "''Jan 1 2024''"])
       (simp_all add: pattern_eval)
  from first p second show ?thesis by simp
qed

section \<open>The claims\<close>

text \<open>
  C1, as the code has it. When both parameters are supplied, each in one of the two
  accepted forms and at least one as a timestamp, the answer is a 301 redirect to the same
  path with both values cut to their first ten characters, which are canonical dates; no
  query runs. The redirect is cached for one day: \<open>cache-control: public,
  max-age=86400\<close>, not for a year and not immutable.
\<close>

theorem C1_timestamp_redirect:
  assumes "searchParams_get sp ''from'' = Some f" "searchParams_get sp ''to'' = Some t"
      and "is_bare_date f \<or> is_timestamp f" "is_bare_date t \<or> is_timestamp t"
      and "is_timestamp f \<or> is_timestamp t"
  shows "statusCode (respond pathname sp fetchStatsFn now) = 301
         \<and> headers (respond pathname sp fetchStatsFn now) ''location''
               = Some (pathname @ ''?from='' @ take 10 f @ ''&to='' @ take 10 t)
         \<and> headers (respond pathname sp fetchStatsFn now) ''cache-control''
               = Some ''public, max-age=86400''
         \<and> canonical_date (take 10 f) \<and> canonical_date (take 10 t)
         \<and> queries (respond pathname sp fetchStatsFn now) = []"
  using take10_bare[OF assms(3)] take10_bare[OF assms(4)]
  by (simp add: respond_trim[OF assms] redirect_response_def fresh_def is_bare_date_canonical)

theorem C1_timestamp_redirect_witness:
  "is_timestamp ''2024-01-10T13:44:44.289Z'' \<and> is_bare_date ''2024-01-15''
   \<and> statusCode (respond ''/retrieval-success-rate''
         [(''from'', ''2024-01-10T13:44:44.289Z''), (''to'', ''2024-01-15'')] no_rows 1704894284289) = 301
   \<and> headers (respond ''/retrieval-success-rate''
         [(''from'', ''2024-01-10T13:44:44.289Z''), (''to'', ''2024-01-15'')] no_rows 1704894284289)
         ''location'' = Some ''/retrieval-success-rate?from=2024-01-10&to=2024-01-15''"
proof -
  have a: "is_timestamp ''2024-01-10T13:44:44.289Z''" and b: "is_bare_date ''2024-01-15''"
    by (simp_all add: pattern_eval)
  have "searchParams_get [(''from'', ''2024-01-10T13:44:44.289Z''), (''to'', ''2024-01-15'')] ''from''
          = Some ''2024-01-10T13:44:44.289Z''"
       "searchParams_get [(''from'', ''2024-01-10T13:44:44.289Z''), (''to'', ''2024-01-15'')] ''to''
          = Some ''2024-01-15''"
    by simp_all
  from C1_timestamp_redirect[OF this disjI2[OF a] disjI1[OF b] disjI1[OF a],
         of "''/retrieval-success-rate''" no_rows 1704894284289]
  show ?thesis using a b by simp
qed

theorem C1_year_immutable_counterexample:
  "is_timestamp ''2024-01-10T13:44:44.289Z'' \<and> is_timestamp ''2024-01-15T09:44:44.289Z''
   \<and> statusCode (respond ''/retrieval-success-rate''
         [(''from'', ''2024-01-10T13:44:44.289Z''), (''to'', ''2024-01-15T09:44:44.289Z'')]
         no_rows 1704894284289) = 301
   \<and> headers (respond ''/retrieval-success-rate''
         [(''from'', ''2024-01-10T13:44:44.289Z''), (''to'', ''2024-01-15T09:44:44.289Z'')]
         no_rows 1704894284289) ''cache-control'' = Some ''public, max-age=86400''
   \<and> headers (respond ''/retrieval-success-rate''
         [(''from'', ''2024-01-10T13:44:44.289Z''), (''to'', ''2024-01-15T09:44:44.289Z'')]
         no_rows 1704894284289) ''cache-control'' \<noteq> Some ''public, max-age=31536000, immutable''"
proof -
  have a: "is_timestamp ''2024-01-10T13:44:44.289Z''" and b: "is_timestamp ''2024-01-15T09:44:44.289Z''"
    by (simp_all add: pattern_eval)
  have "respond ''/retrieval-success-rate''
         [(''from'', ''2024-01-10T13:44:44.289Z''), (''to'', ''2024-01-15T09:44:44.289Z'')]
         no_rows 1704894284289
        = redirect_response 301 ''public, max-age=86400''
            (''/retrieval-success-rate'' @ ''?from='' @ take 10 ''2024-01-10T13:44:44.289Z''
               @ ''&to='' @ take 10 ''2024-01-15T09:44:44.289Z'') fresh"
    by (rule respond_trim[OF _ _ disjI2[OF a] disjI2[OF b] disjI1[OF a]]) simp_all
  then show ?thesis using a b by (simp add: redirect_response_def)
qed





text \<open>
  C4, as the code has it. When both parameters are supplied and non-empty and one of them
  is in neither accepted form, the answer is 400 with the message
  \<open>"<name>" must have format YYYY-MM-DD or YYYY-MM-DDThh:mm:ss.sssZ\<close>, where the name is
  \<open>from\<close> if \<open>from\<close> is malformed and \<open>to\<close> otherwise; there is no redirect and no
  query. (An empty value counts as absent and is defaulted instead.)
\<close>

theorem C4_malformed_is_bad_request:
  assumes "searchParams_get sp ''from'' = Some f" "f \<noteq> []"
      and "searchParams_get sp ''to'' = Some t" "t \<noteq> []"
      and "\<not> (is_bare_date f \<or> is_timestamp f) \<or> \<not> (is_bare_date t \<or> is_timestamp t)"
  shows "statusCode (respond pathname sp fetchStatsFn now) = 400
         \<and> body (respond pathname sp fetchStatsFn now)
               = TextBody ([CHR 0x22]
                   @ (if is_bare_date f \<or> is_timestamp f then ''to'' else ''from'')
                   @ [CHR 0x22] @ '' must have format YYYY-MM-DD or YYYY-MM-DDThh:mm:ss.sssZ'')
         \<and> headers (respond pathname sp fetchStatsFn now) ''location'' = None
         \<and> queries (respond pathname sp fetchStatsFn now) = []"
proof (cases "is_bare_date f \<or> is_timestamp f")
  case True
  with assms(5) have nt: "\<not> is_bare_date t" "\<not> is_timestamp t" by auto
  from True show ?thesis
    by (simp add: respond_bad_to[OF assms(3,4,1,2) True nt] fresh_def format_message_def
          quoted_def)
next
  case False
  then have nf: "\<not> is_bare_date f" "\<not> is_timestamp f" by auto
  from False show ?thesis
    by (simp add: respond_bad_from[OF assms(3,4,1,2) nf] fresh_def format_message_def
          quoted_def)
qed

theorem C4_malformed_is_bad_request_witness:
  "\<not> (is_bare_date ''2024/01/01'' \<or> is_timestamp ''2024/01/01'')
   \<and> statusCode (respond ''/retrieval-success-rate''
         [(''from'', ''2024/01/01''), (''to'', ''2024-01-02'')] no_rows 1704894284289) = 400
   \<and> body (respond ''/retrieval-success-rate''
         [(''from'', ''2024/01/01''), (''to'', ''2024-01-02'')] no_rows 1704894284289)
       = TextBody ([CHR 0x22] @ ''from'' @ [CHR 0x22]
           @ '' must have format YYYY-MM-DD or YYYY-MM-DDThh:mm:ss.sssZ'')"
proof -
  have n: "\<not> (is_bare_date ''2024/01/01'' \<or> is_timestamp ''2024/01/01'')"
    by (simp add: pattern_eval)
  have "searchParams_get [(''from'', ''2024/01/01''), (''to'', ''2024-01-02'')] ''from''
          = Some ''2024/01/01''" "''2024/01/01'' \<noteq> []"
       "searchParams_get [(''from'', ''2024/01/01''), (''to'', ''2024-01-02'')] ''to''
          = Some ''2024-01-02''" "''2024-01-02'' \<noteq> []"
    by simp_all
  from C4_malformed_is_bad_request[OF this disjI1[OF n],
         of "''/retrieval-success-rate''" no_rows 1704894284289]
  show ?thesis using n by simp
qed

theorem C4_empty_from_counterexample:
  "searchParams_get [(''from'', ''''), (''to'', ''2024/01/01'')] ''from'' = Some ''''
   \<and> searchParams_get [(''from'', ''''), (''to'', ''2024/01/01'')] ''to'' = Some ''2024/01/01''
   \<and> \<not> is_bare_date ''2024/01/01'' \<and> \<not> is_timestamp ''2024/01/01''
   \<and> statusCode (respond ''/retrieval-success-rate''
         [(''from'', ''''), (''to'', ''2024/01/01'')] no_rows 1704894284289) = 302
   \<and> headers (respond ''/retrieval-success-rate''
         [(''from'', ''''), (''to'', ''2024/01/01'')] no_rows 1704894284289) ''location''
       = Some ''/retrieval-success-rate?from=2024%2F01%2F01&to=2024%2F01%2F01''"
proof -
  have "\<not> truthy (searchParams_get [(''from'', ''''), (''to'', ''2024/01/01'')] ''to'')
          \<or> \<not> truthy (searchParams_get [(''from'', ''''), (''to'', ''2024/01/01'')] ''from'')"
    by simp
  then show ?thesis
    by (simp add: respond_default redirect_response_def defaulted_def urlencode_eval
          pattern_eval)
qed

text \<open>
  C5, as the code has it. A request that ends neither in a redirect nor in a 400 has
  reached the query step with exactly one filter, the supplied \<open>from\<close> and \<open>to\<close>
  unchanged, and both have the canonical shape: ten characters \<open>DDDD-DD-DD\<close> of digits
  and hyphens, with no time of day and no offset. The pattern checks the shape only: month
  and day are not range-checked, so such a value need not be a date of the calendar.
\<close>

theorem C5_served_range_canonical:
  assumes "statusCode (respond pathname sp fetchStatsFn now) \<notin> {301, 302, 400}"
  shows "\<exists>f t. queries (respond pathname sp fetchStatsFn now)
                  = [\<lparr>filter_from = f, filter_to = t\<rparr>]
               \<and> searchParams_get sp ''from'' = Some f \<and> searchParams_get sp ''to'' = Some t
               \<and> canonical_date f \<and> canonical_date t"
proof (cases rule: request_cases[of sp])
  case default
  from assms show ?thesis by (simp add: respond_default[OF default] redirect_response_def)
next
  case (bad_from f t)
  from assms show ?thesis by (simp add: respond_bad_from[OF bad_from(3,4,1,2,5,6)])
next
  case (bad_to f t)
  from assms show ?thesis by (simp add: respond_bad_to[OF bad_to(3,4,1,2,5,6,7)])
next
  case (trim f t)
  from assms show ?thesis by (simp add: respond_trim[OF trim] redirect_response_def)
next
  case (serve f t)
  then show ?thesis
    by (simp add: respond_serve[OF serve] fresh_def is_bare_date_canonical split: option.splits)
qed

theorem C5_served_range_canonical_witness:
  "statusCode (respond ''/participants/monthly'' [(''from'', ''2024-01-12''), (''to'', ''2024-02-12'')]
       no_rows 1704894284289) \<notin> {301, 302, 400}
   \<and> queries (respond ''/participants/monthly'' [(''from'', ''2024-01-12''), (''to'', ''2024-02-12'')]
       no_rows 1704894284289) = [\<lparr>filter_from = ''2024-01-12'', filter_to = ''2024-02-12''\<rparr>]
   \<and> canonical_date ''2024-01-12'' \<and> canonical_date ''2024-02-12''"
proof -
  have s: "statusCode (respond ''/participants/monthly''
             [(''from'', ''2024-01-12''), (''to'', ''2024-02-12'')] no_rows 1704894284289)
           \<notin> {301, 302, 400}"
    by (subst respond_serve[of _ "''2024-01-12''" "''2024-02-12''"])
       (simp_all add: pattern_eval no_rows_def fresh_def)
  from C5_served_range_canonical[OF s] s show ?thesis by auto
qed

theorem C5_month_thirteen_counterexample:
  "statusCode (respond ''/retrieval-success-rate'' [(''from'', ''2024-13-45''), (''to'', ''2024-13-45'')]
       no_rows 1704894284289) = 200
   \<and> queries (respond ''/retrieval-success-rate'' [(''from'', ''2024-13-45''), (''to'', ''2024-13-45'')]
       no_rows 1704894284289) = [\<lparr>filter_from = ''2024-13-45'', filter_to = ''2024-13-45''\<rparr>]
   \<and> canonical_date ''2024-13-45'' \<and> \<not> is_calendar_date ''2024-13-45''"
proof -
  have b: "is_bare_date ''2024-13-45''" by (simp add: pattern_eval)
  have "respond ''/retrieval-success-rate'' [(''from'', ''2024-13-45''), (''to'', ''2024-13-45'')]
          no_rows 1704894284289
        = fresh\<lparr>headers := [''cache-control'' \<mapsto> ''public, max-age=600''],
                body := JsonBody [], ended := True,
                queries := [\<lparr>filter_from = ''2024-13-45'', filter_to = ''2024-13-45''\<rparr>]\<rparr>"
    by (subst respond_serve[OF _ _ b b])
       (simp_all add: no_rows_def boundary_example js_string_ge_def)
  then show ?thesis by (simp add: fresh_def calendar_eval)
qed

text \<open>
  C6, as the code has it. The target of a 301 redirect, requested as it is (same path, the
  query of the location read back), always reaches the query step: no further redirect and
  no 400, at any time and with any query function. The target of a 302 redirect does so
  when every supplied non-empty parameter was already a bare date and today's date has
  the form \<open>YYYY-MM-DD\<close> (a clock within the years 0000 to 9999).
\<close>

theorem C6_redirect_target_is_served:
  assumes "getStatsWithFilterAndCaching pathname sp fetchStatsFn now fresh = (out, res)"
      and "statusCode res = 301
           \<or> (statusCode res = 302 \<and> canonical_date (today now)
               \<and> (\<forall>v. (searchParams_get sp ''from'' = Some v \<or> searchParams_get sp ''to'' = Some v)
                        \<and> v \<noteq> [] \<longrightarrow> is_bare_date v))"
  shows "\<exists>q f t. headers res ''location'' = Some (pathname @ ''?'' @ q)
           \<and> out = Returned (Some \<lparr>filter_from = f, filter_to = t\<rparr>)
           \<and> (\<forall>fetchStatsFn' now'.
                 statusCode (respond pathname (parse_urlencoded q) fetchStatsFn' now')
                   \<notin> {301, 302, 400}
                 \<and> queries (respond pathname (parse_urlencoded q) fetchStatsFn' now')
                     = [\<lparr>filter_from = f, filter_to = t\<rparr>])"
proof -
  from assms(2) have "statusCode res \<in> {301, 302}" by auto
  with assms(1) show ?thesis
  proof (cases rule: redirect_cases)
    case default
    define t where "t = defaulted (searchParams_get sp ''to'') (today now)"
    define f where "f = defaulted (searchParams_get sp ''from'') t"
    from default(2) assms(2)
    have c: "canonical_date (today now)"
      and b: "\<And>v. (searchParams_get sp ''from'' = Some v \<or> searchParams_get sp ''to'' = Some v)
                 \<Longrightarrow> v \<noteq> [] \<Longrightarrow> is_bare_date v"
      by auto
    have bt: "is_bare_date t"
      unfolding t_def using b c by (intro defaulted_bare) (auto simp: is_bare_date_canonical)
    have bf: "is_bare_date f"
      unfolding f_def using b bt by (intro defaulted_bare) auto
    from assms(1) have o: "out = Returned (Some \<lparr>filter_from = f, filter_to = t\<rparr>)"
      and l: "headers res ''location''
                = Some (pathname @ ''?'' @ (''from='' @ urlencode f @ ''&to='' @ urlencode t))"
      by (auto simp: path_default[OF default(1)] Let_def redirect_response_def f_def t_def)
    from o l serve_after_redirect[OF bf bt, of pathname] show ?thesis by blast
  next
    case (trim f t)
    have bf: "is_bare_date (take 10 f)" and bt: "is_bare_date (take 10 t)"
      using take10_bare[OF trim(3)] take10_bare[OF trim(4)] by blast+
    have enc: "urlencode (take 10 f) = take 10 f" "urlencode (take 10 t) = take 10 t"
      using bf bt urlencode_bare_date by blast+
    from assms(1) have o: "out = Returned (Some \<lparr>filter_from = take 10 f, filter_to = take 10 t\<rparr>)"
      and l: "headers res ''location''
              = Some (pathname @ ''?'' @ (''from='' @ urlencode (take 10 f)
                                          @ ''&to='' @ urlencode (take 10 t)))"
      by (auto simp: getStats_trim[OF trim(1-5)] redirect_response_def enc)
    from o l serve_after_redirect[OF bf bt, of pathname] show ?thesis by blast
  qed
qed

theorem C6_redirect_target_is_served_witness:
  "(\<exists>res :: unit conn.
      getStatsWithFilterAndCaching ''/retrieval-success-rate''
          [(''from'', ''2024-01-10T13:44:44.289Z''), (''to'', ''2024-01-15T09:44:44.289Z'')]
          no_rows 1704894284289 fresh
        = (Returned (Some \<lparr>filter_from = ''2024-01-10'', filter_to = ''2024-01-15''\<rparr>), res)
      \<and> statusCode res = 301
      \<and> headers res ''location'' = Some ''/retrieval-success-rate?from=2024-01-10&to=2024-01-15'')
   \<and> statusCode (respond ''/retrieval-success-rate''
        (parse_urlencoded ''from=2024-01-10&to=2024-01-15'') no_rows 1704894284289) \<notin> {301, 302, 400}
   \<and> queries (respond ''/retrieval-success-rate''
        (parse_urlencoded ''from=2024-01-10&to=2024-01-15'') no_rows 1704894284289)
       = [\<lparr>filter_from = ''2024-01-10'', filter_to = ''2024-01-15''\<rparr>]
   \<and> (\<exists>res :: unit conn.
      getStatsWithFilterAndCaching ''/retrieval-success-rate'' [(''to'', ''2024-01-05'')]
          no_rows 1704894284289 fresh
        = (Returned (Some \<lparr>filter_from = ''2024-01-05'', filter_to = ''2024-01-05''\<rparr>), res)
      \<and> statusCode res = 302 \<and> canonical_date (today 1704894284289)
      \<and> headers res ''location'' = Some ''/retrieval-success-rate?from=2024-01-05&to=2024-01-05'')
   \<and> queries (respond ''/retrieval-success-rate''
        (parse_urlencoded ''from=2024-01-05&to=2024-01-05'') no_rows 1704894284289)
       = [\<lparr>filter_from = ''2024-01-05'', filter_to = ''2024-01-05''\<rparr>]"
proof -
  have a: "is_timestamp ''2024-01-10T13:44:44.289Z''" and b: "is_timestamp ''2024-01-15T09:44:44.289Z''"
    by (simp_all add: pattern_eval)
  define res :: "unit conn" where
    "res = redirect_response 301 ''public, max-age=86400''
             ''/retrieval-success-rate?from=2024-01-10&to=2024-01-15'' fresh"
  have r: "getStatsWithFilterAndCaching ''/retrieval-success-rate''
          [(''from'', ''2024-01-10T13:44:44.289Z''), (''to'', ''2024-01-15T09:44:44.289Z'')]
          no_rows 1704894284289 fresh
        = (Returned (Some \<lparr>filter_from = ''2024-01-10'', filter_to = ''2024-01-15''\<rparr>), res)"
    by (subst getStats_trim[OF _ _ disjI2[OF a] disjI2[OF b] disjI1[OF a]])
       (simp_all add: res_def)
  have s: "statusCode res = 301" by (simp add: res_def redirect_response_def)
  from C6_redirect_target_is_served[OF r disjI1[OF s]]
  obtain q where l: "headers res ''location'' = Some (''/retrieval-success-rate'' @ ''?'' @ q)"
    and served: "statusCode (respond ''/retrieval-success-rate'' (parse_urlencoded q) no_rows
                    1704894284289) \<notin> {301, 302, 400}
                 \<and> queries (respond ''/retrieval-success-rate'' (parse_urlencoded q) no_rows
                      1704894284289)
                   = [\<lparr>filter_from = ''2024-01-10'', filter_to = ''2024-01-15''\<rparr>]"
    by fastforce
  from l have q: "q = ''from=2024-01-10&to=2024-01-15''"
    by (simp add: res_def redirect_response_def)
  have d: "\<not> truthy (searchParams_get [(''to'', ''2024-01-05'')] ''to'')
             \<or> \<not> truthy (searchParams_get [(''to'', ''2024-01-05'')] ''from'')"
    by simp
  define res2 :: "unit conn" where
    "res2 = redirect_response 302 ''public, max-age=600''
              ''/retrieval-success-rate?from=2024-01-05&to=2024-01-05'' fresh"
  have r2: "getStatsWithFilterAndCaching ''/retrieval-success-rate'' [(''to'', ''2024-01-05'')]
              no_rows 1704894284289 fresh
            = (Returned (Some \<lparr>filter_from = ''2024-01-05'', filter_to = ''2024-01-05''\<rparr>), res2)"
    by (simp add: path_default[OF d] res2_def defaulted_def urlencode_eval Let_def)
  have c: "canonical_date (today 1704894284289)"
    by (simp add: today_example canonical_date_def is_digit_def)
  have h2: "statusCode res2 = 302 \<and> canonical_date (today 1704894284289)
              \<and> (\<forall>v. (searchParams_get [(''to'', ''2024-01-05'')] ''from'' = Some v
                         \<or> searchParams_get [(''to'', ''2024-01-05'')] ''to'' = Some v)
                       \<and> v \<noteq> [] \<longrightarrow> is_bare_date v)"
    using c by (auto simp: res2_def redirect_response_def pattern_eval)
  from C6_redirect_target_is_served[OF r2 disjI2[OF h2]]
  obtain q2 where l2: "headers res2 ''location'' = Some (''/retrieval-success-rate'' @ ''?'' @ q2)"
    and served2: "queries (respond ''/retrieval-success-rate'' (parse_urlencoded q2) no_rows
                      1704894284289)
                   = [\<lparr>filter_from = ''2024-01-05'', filter_to = ''2024-01-05''\<rparr>]"
    by fastforce
  from l2 have q2: "q2 = ''from=2024-01-05&to=2024-01-05''"
    by (simp add: res2_def redirect_response_def)
  have first: "\<exists>res :: unit conn.
      getStatsWithFilterAndCaching ''/retrieval-success-rate''
          [(''from'', ''2024-01-10T13:44:44.289Z''), (''to'', ''2024-01-15T09:44:44.289Z'')]
          no_rows 1704894284289 fresh
        = (Returned (Some \<lparr>filter_from = ''2024-01-10'', filter_to = ''2024-01-15''\<rparr>), res)
      \<and> statusCode res = 301
      \<and> headers res ''location'' = Some ''/retrieval-success-rate?from=2024-01-10&to=2024-01-15''"
    using r s by (intro exI[of _ res]) (simp add: res_def redirect_response_def)
  have second: "\<exists>res :: unit conn.
      getStatsWithFilterAndCaching ''/retrieval-success-rate'' [(''to'', ''2024-01-05'')]
          no_rows 1704894284289 fresh
        = (Returned (Some \<lparr>filter_from = ''2024-01-05'', filter_to = ''2024-01-05''\<rparr>), res)
      \<and> statusCode res = 302 \<and> canonical_date (today 1704894284289)
      \<and> headers res ''location'' = Some ''/retrieval-success-rate?from=2024-01-05&to=2024-01-05''"
    using r2 c by (intro exI[of _ res2]) (simp add: res2_def redirect_response_def)
  from first second served served2 show ?thesis unfolding q q2 by blast
qed

theorem C6_second_redirect_counterexample:
  "statusCode (respond ''/retrieval-success-rate'' [(''from'', ''2024-01-10T13:44:44.289Z'')]
       no_rows 1704894284289) = 302
   \<and> headers (respond ''/retrieval-success-rate'' [(''from'', ''2024-01-10T13:44:44.289Z'')]
       no_rows 1704894284289) ''location''
     = Some ''/retrieval-success-rate?from=2024-01-10T13%3A44%3A44.289Z&to=2024-01-10''
   \<and> parse_urlencoded ''from=2024-01-10T13%3A44%3A44.289Z&to=2024-01-10''
     = [(''from'', ''2024-01-10T13:44:44.289Z''), (''to'', ''2024-01-10'')]
   \<and> statusCode (respond ''/retrieval-success-rate''
       (parse_urlencoded ''from=2024-01-10T13%3A44%3A44.289Z&to=2024-01-10'')
       no_rows 1704894284289) = 301"
proof -
  have d: "\<not> truthy (searchParams_get [(''from'', ''2024-01-10T13:44:44.289Z'')] ''to'')
             \<or> \<not> truthy (searchParams_get [(''from'', ''2024-01-10T13:44:44.289Z'')] ''from'')"
    by simp
  have first: "respond ''/retrieval-success-rate'' [(''from'', ''2024-01-10T13:44:44.289Z'')]
                 no_rows 1704894284289
               = redirect_response 302 ''public, max-age=600''
                   ''/retrieval-success-rate?from=2024-01-10T13%3A44%3A44.289Z&to=2024-01-10''
                   fresh"
    by (simp add: respond_default[OF d] defaulted_def today_example urlencode_eval)
  have p: "parse_urlencoded ''from=2024-01-10T13%3A44%3A44.289Z&to=2024-01-10''
             = [(''from'', ''2024-01-10T13:44:44.289Z''), (''to'', ''2024-01-10'')]"
    using parse_from_to[of "''2024-01-10T13:44:44.289Z''" "''2024-01-10''"]
    by (simp add: urlencode_eval)
  have a: "is_timestamp ''2024-01-10T13:44:44.289Z''" and b: "is_bare_date ''2024-01-10''"
    by (simp_all add: pattern_eval)
  have second: "statusCode (respond ''/retrieval-success-rate''
                  [(''from'', ''2024-01-10T13:44:44.289Z''), (''to'', ''2024-01-10'')]
                  no_rows 1704894284289) = 301"
    by (subst respond_trim[OF _ _ disjI2[OF a] disjI1[OF b] disjI1[OF a]])
       (simp_all add: redirect_response_def)
  from first p second show ?thesis by (simp add: redirect_response_def)
qed

text \<open>
  C7. A request that ends in a redirect (301 or 302) or in a 400 has not invoked the
  query function; and the query function is invoked only on the canonical-range way, once,
  with the supplied bare dates.
\<close>

theorem C7_no_query_before_serving:
  "(statusCode (respond pathname sp fetchStatsFn now) \<in> {301, 302, 400}
      \<longrightarrow> queries (respond pathname sp fetchStatsFn now) = [])
   \<and> (queries (respond pathname sp fetchStatsFn now) \<noteq> []
      \<longrightarrow> (\<exists>f t. searchParams_get sp ''from'' = Some f \<and> searchParams_get sp ''to'' = Some t
                 \<and> is_bare_date f \<and> is_bare_date t
                 \<and> queries (respond pathname sp fetchStatsFn now)
                      = [\<lparr>filter_from = f, filter_to = t\<rparr>]))"
proof (cases rule: request_cases[of sp])
  case default
  show ?thesis by (simp add: respond_default[OF default] redirect_response_def fresh_def)
next
  case (bad_from f t)
  show ?thesis by (simp add: respond_bad_from[OF bad_from(3,4,1,2,5,6)] fresh_def)
next
  case (bad_to f t)
  show ?thesis by (simp add: respond_bad_to[OF bad_to(3,4,1,2,5,6,7)] fresh_def)
next
  case (trim f t)
  show ?thesis by (simp add: respond_trim[OF trim] redirect_response_def fresh_def)
next
  case (serve f t)
  then show ?thesis
    by (simp add: respond_serve[OF serve] fresh_def split: option.splits)
qed

theorem C7_no_query_before_serving_witness:
  "statusCode (respond ''/retrieval-success-rate'' [(''from'', ''2024/01/01''), (''to'', ''2024-01-02'')]
       no_rows 1704894284289) \<in> {301, 302, 400}
   \<and> queries (respond ''/retrieval-success-rate'' [(''from'', ''2024/01/01''), (''to'', ''2024-01-02'')]
       no_rows 1704894284289) = []
   \<and> statusCode (respond ''/retrieval-success-rate'' [] no_rows 1704894284289) \<in> {301, 302, 400}
   \<and> queries (respond ''/retrieval-success-rate'' [] no_rows 1704894284289) = []"
proof -
  have a: "statusCode (respond ''/retrieval-success-rate''
             [(''from'', ''2024/01/01''), (''to'', ''2024-01-02'')] no_rows 1704894284289)
           \<in> {301, 302, 400}"
    by (subst respond_bad_from[of _ "''2024-01-02''" "''2024/01/01''"])
       (simp_all add: pattern_eval)
  have b: "statusCode (respond ''/retrieval-success-rate'' [] no_rows 1704894284289)
           \<in> {301, 302, 400}"
    by (subst respond_default) (simp_all add: redirect_response_def)
  from C7_no_query_before_serving[of "''/retrieval-success-rate''"
         "[(''from'', ''2024/01/01''), (''to'', ''2024-01-02'')]" no_rows 1704894284289]
       C7_no_query_before_serving[of "''/retrieval-success-rate''" "[]" no_rows 1704894284289]
       a b
  show ?thesis by blast
qed

text \<open>
  C8. Every redirect, 302 or 301, has the location \<open>pathname?from=<from>&to=<to>\<close>:
  \<open>from\<close> first, \<open>to\<close> second, the values being the \<open>{ from, to }\<close> the function returns,
  form-urlencoded. The encoded values consist of unreserved characters, \<open>+\<close>, \<open>%\<close> and
  hexadecimal digits only, and reading the query back gives exactly the two pairs in that
  order.
\<close>

theorem C8_location_from_then_to:
  assumes "getStatsWithFilterAndCaching pathname sp fetchStatsFn now fresh = (out, res)"
      and "statusCode res \<in> {301, 302}"
  shows "\<exists>f t. out = Returned (Some \<lparr>filter_from = f, filter_to = t\<rparr>)
           \<and> headers res ''location''
                = Some (pathname @ ''?'' @ ''from='' @ urlencode f @ ''&to='' @ urlencode t)
           \<and> (\<forall>c \<in> set (urlencode f @ urlencode t).
                  is_unreserved c \<or> c = CHR ''+'' \<or> c = CHR ''%'' \<or> is_hex c)
           \<and> parse_urlencoded (''from='' @ urlencode f @ ''&to='' @ urlencode t)
                = [(''from'', f), (''to'', t)]"
  using assms
proof (cases rule: redirect_cases)
  case default
  define t where "t = defaulted (searchParams_get sp ''to'') (today now)"
  define f where "f = defaulted (searchParams_get sp ''from'') t"
  have safe: "\<forall>c \<in> set (urlencode f @ urlencode t).
                is_unreserved c \<or> c = CHR ''+'' \<or> c = CHR ''%'' \<or> is_hex c"
    using urlencode_safe by auto
  from assms(1) have o: "out = Returned (Some \<lparr>filter_from = f, filter_to = t\<rparr>)"
    and l: "headers res ''location''
              = Some (pathname @ ''?from='' @ urlencode f @ ''&to='' @ urlencode t)"
    by (auto simp: path_default[OF default(1)] Let_def redirect_response_def f_def t_def)
  show ?thesis
    using o l safe parse_from_to[of f t] by simp
next
  case (trim f t)
  have enc: "urlencode (take 10 f) = take 10 f" "urlencode (take 10 t) = take 10 t"
    using take10_bare[OF trim(3)] take10_bare[OF trim(4)] urlencode_bare_date by blast+
  have safe: "\<forall>c \<in> set (urlencode (take 10 f) @ urlencode (take 10 t)).
                is_unreserved c \<or> c = CHR ''+'' \<or> c = CHR ''%'' \<or> is_hex c"
    using urlencode_safe by auto
  from assms(1) have o: "out = Returned (Some \<lparr>filter_from = take 10 f, filter_to = take 10 t\<rparr>)"
    and l: "headers res ''location''
              = Some (pathname @ ''?from='' @ take 10 f @ ''&to='' @ take 10 t)"
    by (auto simp: getStats_trim[OF trim(1-5)] redirect_response_def)
  show ?thesis
    using o l safe parse_from_to[of "take 10 f" "take 10 t"] by (simp add: enc)
qed

theorem C8_location_from_then_to_witness:
  "(\<exists>res :: unit conn.
      getStatsWithFilterAndCaching ''/participants/daily'' [(''to'', ''a&b=c d'')] no_rows
          1704894284289 fresh
        = (Returned (Some \<lparr>filter_from = ''a&b=c d'', filter_to = ''a&b=c d''\<rparr>), res)
      \<and> statusCode res \<in> {301, 302}
      \<and> headers res ''location'' = Some ''/participants/daily?from=a%26b%3Dc+d&to=a%26b%3Dc+d'')
   \<and> parse_urlencoded ''from=a%26b%3Dc+d&to=a%26b%3Dc+d''
        = [(''from'', ''a&b=c d''), (''to'', ''a&b=c d'')]"
proof -
  have d: "\<not> truthy (searchParams_get [(''to'', ''a&b=c d'')] ''to'')
             \<or> \<not> truthy (searchParams_get [(''to'', ''a&b=c d'')] ''from'')"
    by simp
  define res :: "unit conn" where
    "res = redirect_response 302 ''public, max-age=600''
             ''/participants/daily?from=a%26b%3Dc+d&to=a%26b%3Dc+d'' fresh"
  have r: "getStatsWithFilterAndCaching ''/participants/daily'' [(''to'', ''a&b=c d'')] no_rows
              1704894284289 fresh
            = (Returned (Some \<lparr>filter_from = ''a&b=c d'', filter_to = ''a&b=c d''\<rparr>), res)"
    by (simp add: path_default[OF d] res_def defaulted_def urlencode_eval Let_def)
  have s: "statusCode res \<in> {301, 302}" by (simp add: res_def redirect_response_def)
  from C8_location_from_then_to[OF r s] r s
  show ?thesis by (auto simp: urlencode_eval)
qed

text \<open>
  C9. An empty \<open>from\<close> or \<open>to\<close> is treated exactly like an absent one: the run is the same
  as on the query with that parameter deleted, and it ends in a 302. So a 400 arises only
  when both parameters are present and non-empty; and a supplied \<open>from\<close>, whatever its
  form, next to an absent \<open>to\<close> gives a 302 whose location carries that \<open>from\<close>
  (form-urlencoded) and today's date as \<open>to\<close>.
\<close>

theorem C9_empty_is_absent:
  "(\<forall>name. (name = ''to'' \<or> name = ''from'') \<and> searchParams_get sp name = Some []
      \<longrightarrow> getStatsWithFilterAndCaching pathname sp fetchStatsFn now res
            = getStatsWithFilterAndCaching pathname (searchParams_delete name sp)
                fetchStatsFn now res
          \<and> statusCode (respond pathname sp fetchStatsFn now) = 302)
   \<and> (statusCode (respond pathname sp fetchStatsFn now) = 400
      \<longrightarrow> (\<exists>f t. searchParams_get sp ''from'' = Some f \<and> f \<noteq> []
                 \<and> searchParams_get sp ''to'' = Some t \<and> t \<noteq> []))
   \<and> (\<forall>f. searchParams_get sp ''to'' = None \<and> searchParams_get sp ''from'' = Some f \<and> f \<noteq> []
      \<longrightarrow> statusCode (respond pathname sp fetchStatsFn now) = 302
          \<and> headers (respond pathname sp fetchStatsFn now) ''location''
               = Some (pathname @ ''?from='' @ urlencode f @ ''&to='' @ urlencode (today now)))"
proof (intro conjI allI impI)
  fix name
  assume a: "(name = ''to'' \<or> name = ''from'') \<and> searchParams_get sp name = Some []"
  then show "getStatsWithFilterAndCaching pathname sp fetchStatsFn now res
            = getStatsWithFilterAndCaching pathname (searchParams_delete name sp)
                fetchStatsFn now res"
    using getStats_empty_absent by blast
  from a have "\<not> truthy (searchParams_get sp ''to'') \<or> \<not> truthy (searchParams_get sp ''from'')"
    by auto
  then show "statusCode (respond pathname sp fetchStatsFn now) = 302"
    by (simp add: respond_default redirect_response_def)
next
  assume s: "statusCode (respond pathname sp fetchStatsFn now) = 400"
  show "\<exists>f t. searchParams_get sp ''from'' = Some f \<and> f \<noteq> []
                 \<and> searchParams_get sp ''to'' = Some t \<and> t \<noteq> []"
  proof (cases rule: request_cases[of sp])
    case default
    from s show ?thesis by (simp add: respond_default[OF default] redirect_response_def)
  next
    case (bad_from f t)
    then show ?thesis by blast
  next
    case (bad_to f t)
    then show ?thesis by blast
  next
    case (trim f t)
    from s show ?thesis by (simp add: respond_trim[OF trim] redirect_response_def)
  next
    case (serve f t)
    from s show ?thesis by (simp add: respond_serve[OF serve] fresh_def split: option.splits)
  qed
next
  fix f
  assume a: "searchParams_get sp ''to'' = None \<and> searchParams_get sp ''from'' = Some f \<and> f \<noteq> []"
  then have d: "\<not> truthy (searchParams_get sp ''to'') \<or> \<not> truthy (searchParams_get sp ''from'')"
    by simp
  from a show "statusCode (respond pathname sp fetchStatsFn now) = 302"
    by (simp add: respond_default[OF d] redirect_response_def)
  from a show "headers (respond pathname sp fetchStatsFn now) ''location''
               = Some (pathname @ ''?from='' @ urlencode f @ ''&to='' @ urlencode (today now))"
    by (simp add: respond_default[OF d] redirect_response_def defaulted_def)
qed

theorem C9_empty_is_absent_witness:
  "searchParams_get [(''from'', ''Jan 1 2024''), (''to'', [])] ''to'' = Some []
   \<and> statusCode (respond ''/retrieval-success-rate'' [(''from'', ''Jan 1 2024''), (''to'', [])]
         no_rows 1704894284289) = 302
   \<and> searchParams_get [(''from'', ''Jan 1 2024'')] ''to'' = None
   \<and> headers (respond ''/retrieval-success-rate'' [(''from'', ''Jan 1 2024'')]
         no_rows 1704894284289) ''location''
       = Some ''/retrieval-success-rate?from=Jan+1+2024&to=2024-01-10''"
proof -
  have e: "(''to'' = ''to'' \<or> ''to'' = ''from'')
             \<and> searchParams_get [(''from'', ''Jan 1 2024''), (''to'', [])] ''to'' = Some []"
    by simp
  have a: "searchParams_get [(''from'', ''Jan 1 2024'')] ''to'' = None
             \<and> searchParams_get [(''from'', ''Jan 1 2024'')] ''from'' = Some ''Jan 1 2024''
             \<and> ''Jan 1 2024'' \<noteq> []"
    by simp
  note first = C9_empty_is_absent[of "[(''from'', ''Jan 1 2024''), (''to'', [])]"
                 "''/retrieval-success-rate''" no_rows 1704894284289 fresh]
  note second = C9_empty_is_absent[of "[(''from'', ''Jan 1 2024'')]"
                  "''/retrieval-success-rate''" no_rows 1704894284289 fresh]
  from conjunct1[OF first, rule_format, OF e]
  have s: "statusCode (respond ''/retrieval-success-rate''
             [(''from'', ''Jan 1 2024''), (''to'', [])] no_rows 1704894284289) = 302"
    by simp
  from conjunct2[OF conjunct2[OF second], rule_format, OF a]
  have l: "headers (respond ''/retrieval-success-rate'' [(''from'', ''Jan 1 2024'')]
             no_rows 1704894284289) ''location''
           = Some ''/retrieval-success-rate?from=Jan+1+2024&to=2024-01-10''"
    by (simp add: today_example urlencode_eval)
  from s l show ?thesis by simp
qed

text \<open>
  C10. In both success-rate queries every result row belongs to a non-empty group of
  selected table rows (those of its day, or of its miner, within the range); with
  \<open>total\<close> and \<open>successful\<close> the sums over that group, the row's \<open>success_rate\<close> is
  \<open>successful / total\<close> when \<open>total > 0\<close> and \<open>null\<close> otherwise. So no quotient with a
  zero (or negative) total is ever produced.
\<close>

theorem C10_success_rate_guarded:
  "((k, rate) \<in> set (fetchRetrievalSuccessRate table flt) \<longrightarrow>
      (let grp = filter (\<lambda>r. day r = k) (filter (\<lambda>r. day_in_range flt (day r)) table);
           tot = sum_list (map total grp); suc = sum_list (map successful grp)
       in grp \<noteq> []
          \<and> (tot > 0 \<longrightarrow> rate = Some (real_of_int suc / real_of_int tot))
          \<and> (\<not> tot > 0 \<longrightarrow> rate = None)))
   \<and> ((m, rate') \<in> set (fetchMinersRSRSummary table flt) \<longrightarrow>
      (let grp = filter (\<lambda>r. miner_id r = m) (filter (\<lambda>r. day_in_range flt (day r)) table);
           tot = sum_list (map total grp); suc = sum_list (map successful grp)
       in grp \<noteq> []
          \<and> (tot > 0 \<longrightarrow> rate' = Some (real_of_int suc / real_of_int tot))
          \<and> (\<not> tot > 0 \<longrightarrow> rate' = None)))"
proof (intro conjI impI)
  assume "(k, rate) \<in> set (fetchRetrievalSuccessRate table flt)"
  then obtain tot suc where
    g: "(k, tot, suc) \<in> set (group_sums day (filter (\<lambda>r. day_in_range flt (day r)) table))"
    and r: "rate = (if tot > 0 then Some (real_of_int suc / real_of_int tot) else None)"
    by (auto simp: fetchRetrievalSuccessRate_def)
  from group_sums_row[OF g] r
  show "let grp = filter (\<lambda>r. day r = k) (filter (\<lambda>r. day_in_range flt (day r)) table);
           tot = sum_list (map total grp); suc = sum_list (map successful grp)
       in grp \<noteq> []
          \<and> (tot > 0 \<longrightarrow> rate = Some (real_of_int suc / real_of_int tot))
          \<and> (\<not> tot > 0 \<longrightarrow> rate = None)"
    by (simp add: Let_def)
next
  assume "(m, rate') \<in> set (fetchMinersRSRSummary table flt)"
  then obtain tot suc where
    g: "(m, tot, suc) \<in> set (group_sums miner_id (filter (\<lambda>r. day_in_range flt (day r)) table))"
    and r: "rate' = (if tot > 0 then Some (real_of_int suc / real_of_int tot) else None)"
    by (auto simp: fetchMinersRSRSummary_def)
  from group_sums_row[OF g] r
  show "let grp = filter (\<lambda>r. miner_id r = m) (filter (\<lambda>r. day_in_range flt (day r)) table);
           tot = sum_list (map total grp); suc = sum_list (map successful grp)
       in grp \<noteq> []
          \<and> (tot > 0 \<longrightarrow> rate' = Some (real_of_int suc / real_of_int tot))
          \<and> (\<not> tot > 0 \<longrightarrow> rate' = None)"
    by (simp add: Let_def)
qed

theorem C10_success_rate_guarded_witness:
  "(''2024-01-12'', None) \<in> set (fetchRetrievalSuccessRate example_table
        \<lparr>filter_from = ''2024-01-10'', filter_to = ''2024-01-12''\<rparr>)
   \<and> \<not> 0 < sum_list (map total (filter (\<lambda>r. day r = ''2024-01-12'')
             (filter (\<lambda>r. day_in_range \<lparr>filter_from = ''2024-01-10'', filter_to = ''2024-01-12''\<rparr>
                (day r)) example_table)))
   \<and> (''2024-01-10'', Some (51 / 110)) \<in> set (fetchRetrievalSuccessRate example_table
        \<lparr>filter_from = ''2024-01-10'', filter_to = ''2024-01-12''\<rparr>)
   \<and> 0 < sum_list (map total (filter (\<lambda>r. day r = ''2024-01-10'')
             (filter (\<lambda>r. day_in_range \<lparr>filter_from = ''2024-01-10'', filter_to = ''2024-01-12''\<rparr>
                (day r)) example_table)))
   \<and> (''f1two'', Some (60 / 200)) \<in> set (fetchMinersRSRSummary example_table
        \<lparr>filter_from = ''2024-01-11'', filter_to = ''2024-01-12''\<rparr>)
   \<and> 0 < sum_list (map total (filter (\<lambda>r. miner_id r = ''f1two'')
             (filter (\<lambda>r. day_in_range \<lparr>filter_from = ''2024-01-11'', filter_to = ''2024-01-12''\<rparr>
                (day r)) example_table)))"
proof -
  have a: "fetchRetrievalSuccessRate example_table
             \<lparr>filter_from = ''2024-01-10'', filter_to = ''2024-01-12''\<rparr>
           = [(''2024-01-10'', Some (51 / 110)), (''2024-01-11'', Some (61 / 220)),
              (''2024-01-12'', None)]"
    by (simp add: fetch_eval)
  have b: "fetchMinersRSRSummary example_table
             \<lparr>filter_from = ''2024-01-11'', filter_to = ''2024-01-12''\<rparr>
           = [(''f1one'', Some (1 / 20)), (''f1two'', Some (60 / 200)), (''f1zero'', None)]"
    by (simp add: fetch_eval)
  have m1: "(''2024-01-12'', None) \<in> set (fetchRetrievalSuccessRate example_table
              \<lparr>filter_from = ''2024-01-10'', filter_to = ''2024-01-12''\<rparr>)"
    and m2: "(''2024-01-10'', Some (51 / 110)) \<in> set (fetchRetrievalSuccessRate example_table
              \<lparr>filter_from = ''2024-01-10'', filter_to = ''2024-01-12''\<rparr>)"
    by (simp_all add: a)
  have m3: "(''f1two'', Some (60 / 200)) \<in> set (fetchMinersRSRSummary example_table
              \<lparr>filter_from = ''2024-01-11'', filter_to = ''2024-01-12''\<rparr>)"
    by (simp add: b)
  note zero = conjunct1[OF C10_success_rate_guarded, rule_format, OF m1]
  note pos = conjunct1[OF C10_success_rate_guarded, rule_format, OF m2]
  note miner = conjunct2[OF C10_success_rate_guarded, rule_format, OF m3]
  have z: "\<not> 0 < sum_list (map total (filter (\<lambda>r. day r = ''2024-01-12'')
             (filter (\<lambda>r. day_in_range \<lparr>filter_from = ''2024-01-10'', filter_to = ''2024-01-12''\<rparr>
                (day r)) example_table)))"
    using zero by (auto simp: Let_def)
  have p: "0 < sum_list (map total (filter (\<lambda>r. day r = ''2024-01-10'')
             (filter (\<lambda>r. day_in_range \<lparr>filter_from = ''2024-01-10'', filter_to = ''2024-01-12''\<rparr>
                (day r)) example_table)))"
    using pos by (auto simp: Let_def)
  have q: "0 < sum_list (map total (filter (\<lambda>r. miner_id r = ''f1two'')
             (filter (\<lambda>r. day_in_range \<lparr>filter_from = ''2024-01-11'', filter_to = ''2024-01-12''\<rparr>
                (day r)) example_table)))"
    using miner by (auto simp: Let_def)
  from m1 z m2 p m3 q show ?thesis by blast
qed

end
